theory Spec2Isabelle
  imports Complex_Main "HOL-Library.Word"
begin

unbundle bit_operations_syntax

section \<open>Python values and strings\<close>

text \<open>
  A Python \<open>str\<close> is modelled by the list of its UTF-8 bytes, one \<open>char\<close> for each
  byte, so that \<open>s.encode("utf-8")\<close> is the string read as bytes. The builtins that look
  at single characters (\<open>int\<close>, \<open>upper\<close>) are modelled for ASCII text; the theorems
  that depend on what they reject say so with the hypothesis \<open>ascii_text\<close>.
\<close>

type_synonym byte = "8 word"

definition encode_utf8 :: "string \<Rightarrow> byte list" where
  "encode_utf8 s = map of_char s"

definition ascii_text :: "string \<Rightarrow> bool" where
  "ascii_text s = list_all (\<lambda>c. (of_char c :: nat) < 128) s"

definition digit_char :: "nat \<Rightarrow> char" where
  "digit_char d = ''0123456789'' ! d"

text \<open>\<open>str(n)\<close> for a natural number and for an \<open>int\<close>: decimal digits, a minus sign
  for a negative number.\<close>

fun str_nat :: "nat \<Rightarrow> string" where
  "str_nat n = (if n < 10 then [digit_char n] else str_nat (n div 10) @ [digit_char (n mod 10)])"

declare str_nat.simps [simp del]

definition str_int :: "int \<Rightarrow> string" where
  "str_int i = (if i < 0 then CHR ''-'' # str_nat (nat (- i)) else str_nat (nat i))"

text \<open>
  The values the program stores in a parameter dictionary: strings, integers (the
  millisecond timestamp) and floats (quantity and price). A float is modelled by the
  real number it denotes. \<open>str\<close> of a float is the interpreter's shortest round-trip
  rendering, which is not part of the repository: every function that formats a float
  takes it as the parameter \<open>fstr\<close>.
\<close>

datatype pyval = PStr string | PInt int | PFloat real

fun py_str :: "(real \<Rightarrow> string) \<Rightarrow> pyval \<Rightarrow> string" where
  "py_str fstr (PStr s) = s"
| "py_str fstr (PInt i) = str_int i"
| "py_str fstr (PFloat x) = fstr x"

text \<open>
  For the concrete examples: \<open>str\<close> of a float that is a whole number of magnitude
  below \<open>10^16\<close> is the integer followed by \<open>.0\<close> (\<open>str(-1.0) = "-1.0"\<close>).
  No general theorem uses this formatter.
\<close>

definition whole_float_str :: "real \<Rightarrow> string" where
  "whole_float_str x = str_int \<lfloor>x\<rfloor> @ ''.0''"

text \<open>\<open>str.upper\<close> on ASCII text.\<close>

definition upper_char :: "char \<Rightarrow> char" where
  "upper_char c =
     (case map_of (zip ''abcdefghijklmnopqrstuvwxyz'' ''ABCDEFGHIJKLMNOPQRSTUVWXYZ'') c of
        None \<Rightarrow> c
      | Some u \<Rightarrow> u)"

definition upper :: "string \<Rightarrow> string" where
  "upper s = map upper_char s"

text \<open>\<open>sep.join(parts)\<close>.\<close>

fun join :: "string \<Rightarrow> string list \<Rightarrow> string" where
  "join sep [] = []"
| "join sep [p] = p"
| "join sep (p # q # ps) = p @ sep @ join sep (q # ps)"

text \<open>
  A \<open>dict\<close> keeps insertion order: it is an association list with distinct keys.
  \<open>d[k] = v\<close> replaces the value of a key that is present, in place, and appends a new
  key at the end.
\<close>

type_synonym pydict = "(string \<times> pyval) list"

fun dict_set :: "pydict \<Rightarrow> string \<Rightarrow> pyval \<Rightarrow> pydict" where
  "dict_set [] k v = [(k, v)]"
| "dict_set ((k', v') # d) k v = (if k' = k then (k, v) # d else (k', v') # dict_set d k v)"

section \<open>SHA-256 and HMAC (\<open>hashlib.sha256\<close>, \<open>hmac.new\<close>)\<close>

text \<open>
  The two library primitives the signer calls, after FIPS 180-4 and RFC 2104, on byte
  lists and 32-bit words. The round constants are the table of the standard, eight to a
  row.
\<close>

type_synonym w32 = "32 word"

definition K256 :: "w32 list" where
  "K256 = concat
    [[0x428a2f98, 0x71374491, 0xb5c0fbcf, 0xe9b5dba5, 0x3956c25b, 0x59f111f1, 0x923f82a4, 0xab1c5ed5],
     [0xd807aa98, 0x12835b01, 0x243185be, 0x550c7dc3, 0x72be5d74, 0x80deb1fe, 0x9bdc06a7, 0xc19bf174],
     [0xe49b69c1, 0xefbe4786, 0x0fc19dc6, 0x240ca1cc, 0x2de92c6f, 0x4a7484aa, 0x5cb0a9dc, 0x76f988da],
     [0x983e5152, 0xa831c66d, 0xb00327c8, 0xbf597fc7, 0xc6e00bf3, 0xd5a79147, 0x06ca6351, 0x14292967],
     [0x27b70a85, 0x2e1b2138, 0x4d2c6dfc, 0x53380d13, 0x650a7354, 0x766a0abb, 0x81c2c92e, 0x92722c85],
     [0xa2bfe8a1, 0xa81a664b, 0xc24b8b70, 0xc76c51a3, 0xd192e819, 0xd6990624, 0xf40e3585, 0x106aa070],
     [0x19a4c116, 0x1e376c08, 0x2748774c, 0x34b0bcb5, 0x391c0cb3, 0x4ed8aa4a, 0x5b9cca4f, 0x682e6ff3],
     [0x748f82ee, 0x78a5636f, 0x84c87814, 0x8cc70208, 0x90befffa, 0xa4506ceb, 0xbef9a3f7, 0xc67178f2]]"

type_synonym sha_state = "w32 \<times> w32 \<times> w32 \<times> w32 \<times> w32 \<times> w32 \<times> w32 \<times> w32"

definition H256 :: sha_state where
  "H256 = (0x6a09e667, 0xbb67ae85, 0x3c6ef372, 0xa54ff53a,
           0x510e527f, 0x9b05688c, 0x1f83d9ab, 0x5be0cd19)"

definition rotr :: "nat \<Rightarrow> w32 \<Rightarrow> w32" where
  "rotr n w = (drop_bit n w) OR (push_bit (32 - n) w)"

definition Ch :: "w32 \<Rightarrow> w32 \<Rightarrow> w32 \<Rightarrow> w32" where
  "Ch x y z = (x AND y) XOR (NOT x AND z)"

definition Maj :: "w32 \<Rightarrow> w32 \<Rightarrow> w32 \<Rightarrow> w32" where
  "Maj x y z = (x AND y) XOR (x AND z) XOR (y AND z)"

definition Sigma0 :: "w32 \<Rightarrow> w32" where
  "Sigma0 x = rotr 2 x XOR rotr 13 x XOR rotr 22 x"

definition Sigma1 :: "w32 \<Rightarrow> w32" where
  "Sigma1 x = rotr 6 x XOR rotr 11 x XOR rotr 25 x"

definition sigma0 :: "w32 \<Rightarrow> w32" where
  "sigma0 x = rotr 7 x XOR rotr 18 x XOR drop_bit 3 x"

definition sigma1 :: "w32 \<Rightarrow> w32" where
  "sigma1 x = rotr 17 x XOR rotr 19 x XOR drop_bit 10 x"

text \<open>Padding: the byte 0x80, zeros up to 56 modulo 64, the bit length in 8 bytes.\<close>

definition length_bytes :: "nat \<Rightarrow> byte list" where
  "length_bytes n =
     map (\<lambda>i. ucast (drop_bit (8 * (7 - i)) (word_of_nat (8 * n) :: 64 word))) [0..<8]"

definition sha_pad :: "byte list \<Rightarrow> byte list" where
  "sha_pad m =
     m @ [0x80] @ replicate ((119 - length m mod 64) mod 64) 0 @ length_bytes (length m)"

definition be_word :: "byte list \<Rightarrow> w32" where
  "be_word bs = foldl (\<lambda>acc b. push_bit 8 acc OR ucast b) 0 bs"

fun words_of :: "nat \<Rightarrow> byte list \<Rightarrow> w32 list" where
  "words_of 0 bs = []"
| "words_of (Suc n) bs = be_word (take 4 bs) # words_of n (drop 4 bs)"

text \<open>The message schedule: 16 words of the block, extended to 64.\<close>

fun schedule :: "nat \<Rightarrow> w32 list \<Rightarrow> w32 list" where
  "schedule 0 ws = ws"
| "schedule (Suc n) ws =
     (let t = length ws
      in schedule n
           (ws @ [sigma1 (ws ! (t - 2)) + ws ! (t - 7) + sigma0 (ws ! (t - 15)) + ws ! (t - 16)]))"

fun sha_round :: "sha_state \<Rightarrow> w32 \<times> w32 \<Rightarrow> sha_state" where
  "sha_round (a, b, c, d, e, f, g, h) (k, w) =
     (let t1 = h + Sigma1 e + Ch e f g + k + w;
          t2 = Sigma0 a + Maj a b c
      in (t1 + t2, a, b, c, d + t1, e, f, g))"

fun add_state :: "sha_state \<Rightarrow> sha_state \<Rightarrow> sha_state" where
  "add_state (a, b, c, d, e, f, g, h) (a', b', c', d', e', f', g', h') =
     (a + a', b + b', c + c', d + d', e + e', f + f', g + g', h + h')"

definition compress :: "sha_state \<Rightarrow> byte list \<Rightarrow> sha_state" where
  "compress st block =
     add_state st (foldl sha_round st (zip K256 (schedule 48 (words_of 16 block))))"

fun sha_blocks :: "nat \<Rightarrow> sha_state \<Rightarrow> byte list \<Rightarrow> sha_state" where
  "sha_blocks 0 st bs = st"
| "sha_blocks (Suc n) st bs = sha_blocks n (compress st (take 64 bs)) (drop 64 bs)"

definition word_bytes :: "w32 \<Rightarrow> byte list" where
  "word_bytes w = [ucast (drop_bit 24 w), ucast (drop_bit 16 w), ucast (drop_bit 8 w), ucast w]"

fun state_bytes :: "sha_state \<Rightarrow> byte list" where
  "state_bytes (a, b, c, d, e, f, g, h) =
     word_bytes a @ word_bytes b @ word_bytes c @ word_bytes d @
     word_bytes e @ word_bytes f @ word_bytes g @ word_bytes h"

definition sha256 :: "byte list \<Rightarrow> byte list" where
  "sha256 m = (let p = sha_pad m in state_bytes (sha_blocks (length p div 64) H256 p))"

text \<open>HMAC: a key longer than the block is hashed, then padded with zeros to 64 bytes.\<close>

definition hmac_sha256 :: "byte list \<Rightarrow> byte list \<Rightarrow> byte list" where
  "hmac_sha256 key msg =
     (let k0 = (if length key > 64 then sha256 key else key);
          k = k0 @ replicate (64 - length k0) 0
      in sha256 (map (\<lambda>b. b XOR 0x5c) k @ sha256 (map (\<lambda>b. b XOR 0x36) k @ msg)))"

text \<open>\<open>hexdigest()\<close>: two lowercase hexadecimal digits for each byte.\<close>

definition hex_digit :: "nat \<Rightarrow> char" where
  "hex_digit d = ''0123456789abcdef'' ! d"

definition hex_byte :: "byte \<Rightarrow> string" where
  "hex_byte b = [hex_digit (unat b div 16), hex_digit (unat b mod 16)]"

definition hexdigest :: "byte list \<Rightarrow> string" where
  "hexdigest bs = concat (map hex_byte bs)"

section \<open>The signer: \<open>BinanceTrader._generate_signature\<close>\<close>

datatype error = AttributeError | KeyError string | TypeError | ValueError
  | OverflowError | ArgumentTypeError

text \<open>
  The client object. \<open>api_key\<close> and \<open>secret_key\<close> come from \<open>environ.get\<close>, which
  returns \<open>None\<close> for a variable that is not set. The background scheduler the
  constructor starts belongs to the scheduling library and is not part of the record.
\<close>

record trader =
  testnet :: bool
  base_url :: string
  api_key :: "string option"
  secret_key :: "string option"

definition init_trader :: "bool \<Rightarrow> (string \<Rightarrow> string option) \<Rightarrow> trader" where
  "init_trader tn environ =
     \<lparr> testnet = tn,
       base_url = (if tn then ''https://testnet.binance.vision'' else ''https://api.binance.com''),
       api_key = environ (if tn then ''TESTNET_API_KEY'' else ''BINANCE_API_KEY''),
       secret_key = environ (if tn then ''TESTNET_SECRET_KEY'' else ''BINANCE_SECRET_KEY'') \<rparr>"

text \<open>For the concrete examples: a client of the production network with the key
  \<open>k\<close> and the secret \<open>s\<close>.\<close>

definition example_trader :: trader where
  "example_trader =
     init_trader False
       (map_of [(''BINANCE_API_KEY'', ''k''), (''BINANCE_SECRET_KEY'', ''s'')])"

definition query_string :: "(real \<Rightarrow> string) \<Rightarrow> pydict \<Rightarrow> string" where
  "query_string fstr params = join ''&'' (map (\<lambda>(k, v). k @ ''='' @ py_str fstr v) params)"

definition sign :: "string \<Rightarrow> string \<Rightarrow> string" where
  "sign secret msg = hexdigest (hmac_sha256 (encode_utf8 secret) (encode_utf8 msg))"

text \<open>\<open>self.secret_key.encode\<close> raises AttributeError when the secret is \<open>None\<close>.\<close>

definition generate_signature :: "(real \<Rightarrow> string) \<Rightarrow> trader \<Rightarrow> pydict \<Rightarrow> error + string" where
  "generate_signature fstr t params =
     (let qs = query_string fstr params
      in case secret_key t of
           None \<Rightarrow> Inl AttributeError
         | Some secret \<Rightarrow> Inr (sign secret qs))"

text \<open>
  The serialisation in the words of the specification, for a mapping of strings:
  \<open>key1=value1&key2=value2...\<close> in the order of the list.
\<close>

fun canonical :: "(string \<times> string) list \<Rightarrow> string" where
  "canonical [] = []"
| "canonical [(k, v)] = k @ ''='' @ v"
| "canonical ((k, v) # kv # rest) = k @ ''='' @ v @ ''&'' @ canonical (kv # rest)"

definition string_params :: "(string \<times> string) list \<Rightarrow> pydict" where
  "string_params kvs = map (\<lambda>(k, v). (k, PStr v)) kvs"

section \<open>The exchange client: \<open>get_account_info\<close> and \<open>place_limit_order\<close>\<close>

text \<open>
  Decoded JSON, which is also what the two client methods return: \<open>None\<close> is
  \<open>JNull\<close>. An object keeps its members in the order of the text; a lookup takes the
  last member with the key, as \<open>json.loads\<close> does.
\<close>

datatype json = JNull | JBool bool | JNum real | JStr string | JArr "json list"
  | JObj "(string \<times> json) list"

text \<open>The truth value of a decoded value (\<open>if account:\<close>, \<open>if result:\<close>).\<close>

fun truthy :: "json \<Rightarrow> bool" where
  "truthy JNull = False"
| "truthy (JBool b) = b"
| "truthy (JNum x) = (x \<noteq> 0)"
| "truthy (JStr s) = (s \<noteq> [])"
| "truthy (JArr xs) = (xs \<noteq> [])"
| "truthy (JObj kvs) = (kvs \<noteq> [])"

text \<open>\<open>v[key]\<close> for a string key: only an object can be indexed by a string.\<close>

fun subscript :: "json \<Rightarrow> string \<Rightarrow> error + json" where
  "subscript (JObj kvs) key =
     (case map_of (rev kvs) key of None \<Rightarrow> Inl (KeyError key) | Some v \<Rightarrow> Inr v)"
| "subscript v key = Inl TypeError"

text \<open>
  The HTTP transport (\<open>requests\<close>) is outside the repository. A request is what the
  client hands to it; the network is a function from the request to what comes back:
  either the call raises a \<open>RequestException\<close>, or a response arrives. The exception
  carries its text (\<open>str(e)\<close>) and \<open>e.response\<close>: nothing for a connection that fails
  or times out, the last response for one raised after too many redirects. \<open>body\<close> is what \<open>response.json()\<close> and
  \<open>json.loads(response.text)\<close> make of the response text: the decoded value, or the
  decoder's message when the text is not JSON.
\<close>

record http_request =
  req_method :: string
  req_url :: string
  req_headers :: "(string \<times> string option) list"
  req_params :: pydict

datatype body = NotJSON string | JSON json

record http_response =
  status_code :: nat
  reason :: string
  resp_url :: string
  body :: body

datatype reply = Raised string "http_response option" | Responded http_response

text \<open>A network that gives the same reply to every request.\<close>

definition always :: "reply \<Rightarrow> http_request \<Rightarrow> reply" where
  "always rep req = rep"

text \<open>
  \<open>Response.raise_for_status\<close> raises \<open>HTTPError\<close> for a status from 400 to 599, with
  the text below as \<open>str(e)\<close> and the response as \<open>e.response\<close>. The truth value of a
  response (\<open>Response.__bool__\<close>) is \<open>Response.ok\<close>: true exactly when
  \<open>raise_for_status\<close> does not raise.
\<close>

definition is_http_error :: "http_response \<Rightarrow> bool" where
  "is_http_error r = (400 \<le> status_code r \<and> status_code r < 600)"

definition http_error_text :: "http_response \<Rightarrow> string" where
  "http_error_text r =
     str_nat (status_code r)
       @ (if status_code r < 500 then '' Client Error: '' else '' Server Error: '')
       @ reason r @ '' for url: '' @ resp_url r"

definition response_bool :: "http_response \<Rightarrow> bool" where
  "response_bool r = (\<not> is_http_error r)"

text \<open>
  What a call prints, in order; the coloured text of each line is left out and the
  values it shows are kept.
\<close>

datatype event =
    SubmitHeader
  | AccountFailed string
  | OrderFailed json
  | BalanceTitle
  | Rule
  | BalanceLine json real
  | Remaining int
  | Sleep nat
  | Newline

text \<open>
  The outcome of a call: what it printed, the requests it handed to the transport, and
  the value it returned or the exception that left it.
\<close>

record 'a run =
  printed :: "event list"
  sent :: "http_request list"
  returned :: "error + 'a"

text \<open>
  \<open>get_account_info\<close>. \<open>now_ms\<close> is \<open>int(time.time() * 1000)\<close>. The signature is
  computed before the \<open>try\<close>; everything the request and \<open>response.json()\<close> raise is
  caught by \<open>except Exception\<close>, reported and turned into \<open>None\<close>. The status of the
  response is not looked at.
\<close>

definition get_account_info ::
  "(real \<Rightarrow> string) \<Rightarrow> (http_request \<Rightarrow> reply) \<Rightarrow> trader \<Rightarrow> int \<Rightarrow> json run" where
  "get_account_info fstr net t now_ms =
     (let endpoint = ''/api/v3/account'';
          params = [(''timestamp'', PInt now_ms)]
      in case generate_signature fstr t params of
           Inl e \<Rightarrow> \<lparr> printed = [], sent = [], returned = Inl e \<rparr>
         | Inr sig \<Rightarrow>
             (let params = dict_set params ''signature'' (PStr sig);
                  req = \<lparr> req_method = ''GET'', req_url = base_url t @ endpoint,
                          req_headers = [(''X-MBX-APIKEY'', api_key t)], req_params = params \<rparr>
              in case net req of
                   Raised msg resp \<Rightarrow>
                     \<lparr> printed = [AccountFailed msg], sent = [req], returned = Inr JNull \<rparr>
                 | Responded r \<Rightarrow>
                     (case body r of
                        NotJSON msg \<Rightarrow>
                          \<lparr> printed = [AccountFailed msg], sent = [req], returned = Inr JNull \<rparr>
                      | JSON j \<Rightarrow> \<lparr> printed = [], sent = [req], returned = Inr j \<rparr>)))"

text \<open>
  \<open>place_limit_order\<close>. Its one handler, of \<open>RequestException\<close>, computes
  \<open>json.loads(e.response.text)['msg'] if e.response else str(e)\<close>, prints it and returns
  \<open>None\<close>. The test is the truth value of the response, not \<open>is not None\<close>; what the
  first alternative raises leaves the method. In \<open>request_failed\<close>, \<open>msg\<close> is \<open>str(e)\<close>
  and \<open>resp\<close> is \<open>e.response\<close>. The handler is reached by an exception of the call
  itself, by the \<open>HTTPError\<close> of \<open>raise_for_status\<close>, which carries the response, and
  by the decoding error of \<open>response.json()\<close>, which is a \<open>RequestException\<close> with no
  response.
\<close>

definition order_failed :: "http_request \<Rightarrow> json \<Rightarrow> json run" where
  "order_failed req error_msg =
     \<lparr> printed = [SubmitHeader, OrderFailed error_msg], sent = [req], returned = Inr JNull \<rparr>"

definition request_failed :: "http_request \<Rightarrow> string \<Rightarrow> http_response option \<Rightarrow> json run" where
  "request_failed req msg resp =
     (case resp of
        None \<Rightarrow> order_failed req (JStr msg)
      | Some r \<Rightarrow>
          if response_bool r then
            (case body r of
               NotJSON m \<Rightarrow>
                 \<lparr> printed = [SubmitHeader], sent = [req], returned = Inl ValueError \<rparr>
             | JSON j \<Rightarrow>
                 (case subscript j ''msg'' of
                    Inl e \<Rightarrow> \<lparr> printed = [SubmitHeader], sent = [req], returned = Inl e \<rparr>
                  | Inr error_msg \<Rightarrow> order_failed req error_msg))
          else order_failed req (JStr msg))"

definition place_limit_order ::
  "(real \<Rightarrow> string) \<Rightarrow> (http_request \<Rightarrow> reply) \<Rightarrow> trader \<Rightarrow> int
     \<Rightarrow> string \<Rightarrow> string \<Rightarrow> real \<Rightarrow> real \<Rightarrow> json run" where
  "place_limit_order fstr net t now_ms symbol side quantity price =
     (let endpoint = ''/api/v3/order'';
          params = [(''symbol'', PStr (upper symbol)), (''side'', PStr (upper side)),
                    (''type'', PStr ''LIMIT''), (''timeInForce'', PStr ''GTC''),
                    (''quantity'', PFloat quantity), (''price'', PFloat price),
                    (''timestamp'', PInt now_ms)]
      in case generate_signature fstr t params of
           Inl e \<Rightarrow> \<lparr> printed = [SubmitHeader], sent = [], returned = Inl e \<rparr>
         | Inr sig \<Rightarrow>
             (let params = dict_set params ''signature'' (PStr sig);
                  req = \<lparr> req_method = ''POST'', req_url = base_url t @ endpoint,
                          req_headers = [(''X-MBX-APIKEY'', api_key t)], req_params = params \<rparr>
              in case net req of
                   Raised msg resp \<Rightarrow> request_failed req msg resp
                 | Responded r \<Rightarrow>
                     if is_http_error r then request_failed req (http_error_text r) (Some r)
                     else
                       (case body r of
                          NotJSON m \<Rightarrow> request_failed req m None
                        | JSON j \<Rightarrow>
                            \<lparr> printed = [SubmitHeader], sent = [req], returned = Inr j \<rparr>)))"

text \<open>
  What the transport puts on the wire for a parameter mapping (\<open>requests\<close> encodes it
  with \<open>urlencode\<close>): keys and rendered values are percent-encoded byte by byte, a blank
  as \<open>+\<close>, every byte but the unreserved ones as \<open>%\<close> and two upper-case hexadecimal
  digits, then joined as \<open>key=value\<close> with \<open>&\<close> in the order of the mapping.
\<close>

definition unreserved :: "char \<Rightarrow> bool" where
  "unreserved c =
     (c \<in> set ''-.0123456789ABCDEFGHIJKLMNOPQRSTUVWXYZ_abcdefghijklmnopqrstuvwxyz~'')"

definition upper_hex :: "nat \<Rightarrow> char" where
  "upper_hex d = ''0123456789ABCDEF'' ! d"

definition quote_char :: "char \<Rightarrow> string" where
  "quote_char c =
     (if unreserved c then [c]
      else if c = CHR '' '' then ''+''
      else [CHR ''%'', upper_hex (of_char c div 16), upper_hex (of_char c mod 16)])"

definition quote_plus :: "string \<Rightarrow> string" where
  "quote_plus s = concat (map quote_char s)"

definition wire_query :: "(real \<Rightarrow> string) \<Rightarrow> pydict \<Rightarrow> string" where
  "wire_query fstr params =
     join ''&'' (map (\<lambda>(k, v). quote_plus k @ ''='' @ quote_plus (py_str fstr v)) params)"

text \<open>The parameters the two methods put in the dictionary before signing, and the
  dictionary with the signature appended.\<close>

definition account_params :: "int \<Rightarrow> pydict" where
  "account_params now_ms = [(''timestamp'', PInt now_ms)]"

definition order_params :: "string \<Rightarrow> string \<Rightarrow> real \<Rightarrow> real \<Rightarrow> int \<Rightarrow> pydict" where
  "order_params symbol side quantity price now_ms =
     [(''symbol'', PStr (upper symbol)), (''side'', PStr (upper side)),
      (''type'', PStr ''LIMIT''), (''timeInForce'', PStr ''GTC''),
      (''quantity'', PFloat quantity), (''price'', PFloat price),
      (''timestamp'', PInt now_ms)]"

definition signed :: "(real \<Rightarrow> string) \<Rightarrow> string \<Rightarrow> pydict \<Rightarrow> pydict" where
  "signed fstr secret ps = ps @ [(''signature'', PStr (sign secret (query_string fstr ps)))]"

text \<open>
  The invariant of a signed parameter mapping: the last key is \<open>signature\<close>, no
  earlier key is, and its value is the signature of the serialisation of the keys and
  values before it.
\<close>

definition signed_params :: "(real \<Rightarrow> string) \<Rightarrow> string \<Rightarrow> pydict \<Rightarrow> bool" where
  "signed_params fstr secret params =
     (params \<noteq> [] \<and> fst (last params) = ''signature''
      \<and> ''signature'' \<notin> set (map fst (butlast params))
      \<and> snd (last params) = PStr (sign secret (query_string fstr (butlast params))))"

text \<open>
  The branch of \<open>main\<close> that places an order at once (no \<open>--schedule_time\<close>). The
  arguments are those of the parser: a text or a float, or \<open>None\<close> when the flag is
  absent. The guard is the truth value of each argument; \<open>None\<close> stands for the case
  that the guard fails and nothing is placed.
\<close>

definition main_order ::
  "(real \<Rightarrow> string) \<Rightarrow> (http_request \<Rightarrow> reply) \<Rightarrow> trader \<Rightarrow> int
     \<Rightarrow> string option \<Rightarrow> string option \<Rightarrow> real option \<Rightarrow> real option \<Rightarrow> json run option" where
  "main_order fstr net t now_ms symbol side quantity price =
     (case (symbol, side, quantity, price) of
        (Some sy, Some si, Some q, Some p) \<Rightarrow>
          if sy \<noteq> [] \<and> si \<noteq> [] \<and> q \<noteq> 0 \<and> p \<noteq> 0
          then Some (place_limit_order fstr net t now_ms sy (upper si) q p)
          else None
      | _ \<Rightarrow> None)"

section \<open>Time resolution: \<open>parse_time_input\<close>\<close>

text \<open>
  A naive \<open>datetime\<close> is a wall-clock time: the date as its ordinal
  (\<open>date.toordinal()\<close>, so the next calendar day is the next integer) and the clock
  fields. An aware \<open>datetime\<close> carries in addition the offset from UTC of its
  \<open>tzinfo\<close>, in seconds. Aware values compare as their instants on the time line,
  counted here in microseconds.
\<close>

record wall_time =
  ordinal :: int
  hour :: int
  minute :: int
  second :: int
  microsecond :: int

record datetime = wall_time +
  utcoffset :: int

definition instant :: "datetime \<Rightarrow> int" where
  "instant dt =
     ((((ordinal dt * 24 + hour dt) * 60 + minute dt) * 60 + second dt) - utcoffset dt) * 1000000
       + microsecond dt"

text \<open>
  The timezone database is outside the repository. \<open>shanghai_tz.localize(naive)\<close>
  attaches to a wall-clock time the offset the zone's rules give it (with the default
  \<open>is_dst=False\<close>); the rule is the parameter \<open>zone\<close>. For Asia/Shanghai it is
  \<open>+08:00\<close> at every date since 16 September 1991 and \<open>+09:00\<close> in the summers of
  1986 to 1991.
\<close>

definition localize :: "(wall_time \<Rightarrow> int) \<Rightarrow> wall_time \<Rightarrow> datetime" where
  "localize zone w =
     \<lparr> ordinal = ordinal w, hour = hour w, minute = minute w, second = second w,
       microsecond = microsecond w, utcoffset = zone w \<rparr>"

text \<open>For the concrete examples: the rule of a zone that is always at \<open>+08:00\<close>.\<close>

definition utc_plus_8 :: "wall_time \<Rightarrow> int" where
  "utc_plus_8 w = 28800"

definition MAXORDINAL :: int where
  "MAXORDINAL = 3652059"

definition valid_datetime :: "datetime \<Rightarrow> bool" where
  "valid_datetime dt =
     (1 \<le> ordinal dt \<and> ordinal dt \<le> MAXORDINAL \<and> 0 \<le> hour dt \<and> hour dt \<le> 23
      \<and> 0 \<le> minute dt \<and> minute dt \<le> 59 \<and> 0 \<le> second dt \<and> second dt \<le> 59
      \<and> 0 \<le> microsecond dt \<and> microsecond dt \<le> 999999)"

text \<open>
  \<open>int(text)\<close> on ASCII text: blanks are stripped at both ends, then an optional sign,
  then decimal digits with single underscores allowed between digits. \<open>None\<close> stands for
  the \<open>ValueError\<close> of a text that is not such a literal, or that has more digits
  than the interpreter's limit (4300 unless configured otherwise, which the program does
  not do). Digits and blanks outside ASCII, which \<open>int\<close> also takes, are not modelled.
\<close>

definition is_space :: "char \<Rightarrow> bool" where
  "is_space c = (let n = (of_char c :: nat) in (9 \<le> n \<and> n \<le> 13) \<or> n = 32)"

definition is_digit :: "char \<Rightarrow> bool" where
  "is_digit c = (let n = (of_char c :: nat) in 48 \<le> n \<and> n \<le> 57)"

definition digit_val :: "char \<Rightarrow> nat" where
  "digit_val c = of_char c - 48"

definition strip :: "string \<Rightarrow> string" where
  "strip s = rev (dropWhile is_space (rev (dropWhile is_space s)))"

fun parse_digits :: "nat \<Rightarrow> string \<Rightarrow> nat option" where
  "parse_digits acc [] = Some acc"
| "parse_digits acc [c] = (if is_digit c then Some (10 * acc + digit_val c) else None)"
| "parse_digits acc (c # d # cs) =
     (if is_digit c then parse_digits (10 * acc + digit_val c) (d # cs)
      else if c = CHR ''_'' \<and> is_digit d then parse_digits acc (d # cs)
      else None)"

definition MAX_STR_DIGITS :: nat where
  "MAX_STR_DIGITS = 4300"

definition py_digits :: "string \<Rightarrow> nat option" where
  "py_digits s =
     (if MAX_STR_DIGITS < length (filter is_digit s) then None
      else (case s of [] \<Rightarrow> None
            | c # cs \<Rightarrow> if is_digit c then parse_digits (digit_val c) cs else None))"

definition py_int :: "string \<Rightarrow> int option" where
  "py_int s =
     (case strip s of
        [] \<Rightarrow> None
      | c # cs \<Rightarrow>
          if c = CHR ''+'' then map_option int (py_digits cs)
          else if c = CHR ''-'' then map_option (\<lambda>n. - int n) (py_digits cs)
          else map_option int (py_digits (c # cs)))"

text \<open>\<open>text.split(sep)\<close> for a separator of one character.\<close>

fun split_on :: "char \<Rightarrow> string \<Rightarrow> string list" where
  "split_on sep [] = [[]]"
| "split_on sep (c # cs) =
     (if c = sep then [] # split_on sep cs
      else (case split_on sep cs of [] \<Rightarrow> [[c]] | p # ps \<Rightarrow> (c # p) # ps))"

text \<open>
  \<open>hour, minute = map(int, parts)\<close>: the fields are converted one by one as the
  unpacking asks for them. A field that is no integer, a missing second field and a
  third field all end in \<open>ValueError\<close>.
\<close>

definition unpack_hour_minute :: "string list \<Rightarrow> error + (int \<times> int)" where
  "unpack_hour_minute parts =
     (case parts of
        [] \<Rightarrow> Inl ValueError
      | p1 # rest1 \<Rightarrow>
          (case py_int p1 of
             None \<Rightarrow> Inl ValueError
           | Some h \<Rightarrow>
               (case rest1 of
                  [] \<Rightarrow> Inl ValueError
                | p2 # rest2 \<Rightarrow>
                    (case py_int p2 of
                       None \<Rightarrow> Inl ValueError
                     | Some m \<Rightarrow>
                         (case rest2 of
                            [] \<Rightarrow> Inr (h, m)
                          | p3 # rest3 \<Rightarrow> Inl ValueError)))))"

text \<open>
  \<open>datetime(year, month, day, hour, minute)\<close> on today's date: the arguments are
  first converted to C integers (OverflowError outside 32 bits), then checked against
  their ranges (ValueError).
\<close>

definition fits_c_int :: "int \<Rightarrow> bool" where
  "fits_c_int i = (- 2147483648 \<le> i \<and> i \<le> 2147483647)"

definition new_datetime :: "int \<Rightarrow> int \<Rightarrow> int \<Rightarrow> error + wall_time" where
  "new_datetime today h m =
     (if \<not> (fits_c_int h \<and> fits_c_int m) then Inl OverflowError
      else if \<not> (0 \<le> h \<and> h \<le> 23) then Inl ValueError
      else if \<not> (0 \<le> m \<and> m \<le> 59) then Inl ValueError
      else Inr \<lparr> ordinal = today, hour = h, minute = m, second = 0, microsecond = 0 \<rparr>)"

text \<open>\<open>dt + timedelta(days=n)\<close>: OverflowError past the last representable date. The
  sum keeps the \<open>tzinfo\<close>, and so the offset, of \<open>dt\<close>.\<close>

definition add_days :: "datetime \<Rightarrow> int \<Rightarrow> error + datetime" where
  "add_days dt n =
     (if ordinal dt + n < 1 \<or> MAXORDINAL < ordinal dt + n then Inl OverflowError
      else Inr (dt \<lparr> ordinal := ordinal dt + n \<rparr>))"

text \<open>
  \<open>parse_time_input\<close>; \<open>now\<close> is \<open>datetime.now(shanghai_tz)\<close>. The \<open>try\<close> covers the
  whole body and catches \<open>ValueError\<close> only.
\<close>

definition parse_time_input :: "(wall_time \<Rightarrow> int) \<Rightarrow> datetime \<Rightarrow> string \<Rightarrow> error + datetime" where
  "parse_time_input zone now time_str =
     (let body =
        (case unpack_hour_minute (split_on CHR '':'' time_str) of
           Inl e \<Rightarrow> Inl e
         | Inr (h, m) \<Rightarrow>
             (case new_datetime (ordinal now) h m of
                Inl e \<Rightarrow> Inl e
              | Inr naive \<Rightarrow>
                  (let target_time = localize zone naive
                   in if instant target_time < instant now then add_days target_time 1
                      else Inr target_time)))
      in case body of
           Inl ValueError \<Rightarrow> Inl ArgumentTypeError
         | r \<Rightarrow> r)"

text \<open>The texts \<open>HH:MM\<close>: two digits, a colon, two digits.\<close>

definition two_digits :: "nat \<Rightarrow> string" where
  "two_digits n = [digit_char (n div 10), digit_char (n mod 10)]"

definition hhmm :: "nat \<Rightarrow> nat \<Rightarrow> string" where
  "hhmm h m = two_digits h @ '':'' @ two_digits m"

definition is_hhmm :: "string \<Rightarrow> bool" where
  "is_hhmm s =
     (case s of
        [a, b, c, d, e] \<Rightarrow> is_digit a \<and> is_digit b \<and> c = CHR '':'' \<and> is_digit d \<and> is_digit e
      | _ \<Rightarrow> False)"

text \<open>
  The hour and minute a text denotes for the program: exactly two fields around one
  colon, each an integer literal for \<open>int\<close>.
\<close>

definition fields :: "string \<Rightarrow> (int \<times> int) option" where
  "fields s =
     (case split_on CHR '':'' s of
        [a, b] \<Rightarrow> (case (py_int a, py_int b) of (Some h, Some m) \<Rightarrow> Some (h, m) | _ \<Rightarrow> None)
      | _ \<Rightarrow> None)"

definition at_time :: "datetime \<Rightarrow> int \<Rightarrow> int \<Rightarrow> wall_time" where
  "at_time now h m = \<lparr> ordinal = ordinal now, hour = h, minute = m, second = 0, microsecond = 0 \<rparr>"

section \<open>The balance display: \<open>print_balance\<close>\<close>

text \<open>
  \<open>float(v)\<close> for a decoded value. The conversion of a text is the interpreter's and is
  the parameter \<open>to_float\<close> (\<open>None\<close> for the \<open>ValueError\<close> of a text that is no number);
  a float is modelled by the real number it denotes.
\<close>

fun py_float :: "(string \<Rightarrow> real option) \<Rightarrow> json \<Rightarrow> error + real" where
  "py_float to_float (JNum x) = Inr x"
| "py_float to_float (JBool b) = Inr (if b then 1 else 0)"
| "py_float to_float (JStr s) =
     (case to_float s of None \<Rightarrow> Inl ValueError | Some x \<Rightarrow> Inr x)"
| "py_float to_float v = Inl TypeError"

text \<open>\<open>for balance in v\<close>: a list gives its items, an object its keys, a string its
  characters; nothing else can be iterated.\<close>

fun iter_items :: "json \<Rightarrow> error + json list" where
  "iter_items (JArr xs) = Inr xs"
| "iter_items (JObj kvs) = Inr (map (\<lambda>kv. JStr (fst kv)) kvs)"
| "iter_items (JStr s) = Inr (map (\<lambda>c. JStr [c]) s)"
| "iter_items v = Inl TypeError"

text \<open>The format \<open>>6\<close> of the asset name: \<open>None\<close>, a list and an object have no
  such format.\<close>

fun format_asset :: "json \<Rightarrow> error + json" where
  "format_asset JNull = Inl TypeError"
| "format_asset (JArr xs) = Inl TypeError"
| "format_asset (JObj kvs) = Inl TypeError"
| "format_asset v = Inr v"

definition stopped :: "event list \<Rightarrow> error \<Rightarrow> unit run" where
  "stopped out e = \<lparr> printed = out, sent = [], returned = Inl e \<rparr>"

text \<open>The loop over the balances; \<open>out\<close> is what has been printed so far.\<close>

fun balance_loop :: "(string \<Rightarrow> real option) \<Rightarrow> json list \<Rightarrow> event list \<Rightarrow> unit run" where
  "balance_loop to_float [] out = \<lparr> printed = out @ [Rule], sent = [], returned = Inr () \<rparr>"
| "balance_loop to_float (balance # rest) out =
     (case subscript balance ''free'' of
        Inl e \<Rightarrow> stopped out e
      | Inr v \<Rightarrow>
          (case py_float to_float v of
             Inl e \<Rightarrow> stopped out e
           | Inr free \<Rightarrow>
               if free > 0 then
                 (case subscript balance ''asset'' of
                    Inl e \<Rightarrow> stopped out e
                  | Inr a \<Rightarrow>
                      (case format_asset a of
                         Inl e \<Rightarrow> stopped out e
                       | Inr asset \<Rightarrow>
                           balance_loop to_float rest (out @ [BalanceLine asset free])))
               else balance_loop to_float rest out))"

definition print_balance :: "(string \<Rightarrow> real option) \<Rightarrow> json \<Rightarrow> unit run" where
  "print_balance to_float account =
     (let out = [BalanceTitle, Rule]
      in case subscript account ''balances'' of
           Inl e \<Rightarrow> stopped out e
         | Inr balances \<Rightarrow>
             (case iter_items balances of
                Inl e \<Rightarrow> stopped out e
              | Inr items \<Rightarrow> balance_loop to_float items out))"

text \<open>
  The balance step of \<open>main\<close> and of \<open>interactive_trading\<close>: the account is displayed
  when what \<open>get_account_info\<close> returned is true. (\<open>main\<close> repeats the body of
  \<open>print_balance\<close> in place.)
\<close>

definition show_balance ::
  "(real \<Rightarrow> string) \<Rightarrow> (string \<Rightarrow> real option) \<Rightarrow> (http_request \<Rightarrow> reply) \<Rightarrow> trader \<Rightarrow> int
     \<Rightarrow> unit run" where
  "show_balance fstr to_float net t now_ms =
     (let r = get_account_info fstr net t now_ms
      in case returned r of
           Inl e \<Rightarrow> \<lparr> printed = printed r, sent = sent r, returned = Inl e \<rparr>
         | Inr account \<Rightarrow>
             if truthy account then
               (let p = print_balance to_float account
                in \<lparr> printed = printed r @ printed p, sent = sent r, returned = returned p \<rparr>)
             else \<lparr> printed = printed r, sent = sent r, returned = Inr () \<rparr>)"

text \<open>The assets and values a well-formed list of balances holds, in order.\<close>

definition entry :: "(string \<Rightarrow> real option) \<Rightarrow> json \<Rightarrow> (json \<times> real) option" where
  "entry to_float balance =
     (case (subscript balance ''free'', subscript balance ''asset'') of
        (Inr v, Inr a) \<Rightarrow>
          (case (py_float to_float v, format_asset a) of
             (Inr free, Inr asset) \<Rightarrow> Some (asset, free)
           | _ \<Rightarrow> None)
      | _ \<Rightarrow> None)"

fun entries :: "(string \<Rightarrow> real option) \<Rightarrow> json list \<Rightarrow> (json \<times> real) list option" where
  "entries to_float [] = Some []"
| "entries to_float (b # bs) =
     (case entry to_float b of
        None \<Rightarrow> None
      | Some e \<Rightarrow> map_option ((#) e) (entries to_float bs))"

text \<open>For the concrete examples: \<open>float\<close> on the two texts they use.\<close>

definition example_float :: "string \<Rightarrow> real option" where
  "example_float = map_of [(''1.5'', 3 / 2), (''0.00000000'', 0)]"

section \<open>The countdown loop\<close>

text \<open>
  The loop of \<open>main\<close> and \<open>interactive_trading\<close> that shows the remaining time.
  \<open>clock k\<close> is the instant the \<open>k\<close>-th call of \<open>datetime.now\<close> returns and
  \<open>scheduled_time\<close> the target instant, both in microseconds. The loop need not end, so
  the result is an option; the interrupt from the keyboard is not modelled.
\<close>

partial_function (option) countdown :: "(nat \<Rightarrow> int) \<Rightarrow> int \<Rightarrow> nat \<Rightarrow> event list option" where
  "countdown clock scheduled_time k =
     (if scheduled_time - clock k \<le> 0 then Some [Newline]
      else Option.bind (countdown clock scheduled_time (Suc k))
             (\<lambda>rest. Some (Remaining (scheduled_time - clock k) # Sleep 1 # rest)))"

declare countdown.simps [code]

fun samples :: "event list \<Rightarrow> int list" where
  "samples [] = []"
| "samples (Remaining r # es) = r # samples es"
| "samples (e # es) = samples es"

definition ticks :: "(nat \<Rightarrow> int) \<Rightarrow> int \<Rightarrow> nat \<Rightarrow> nat \<Rightarrow> event list" where
  "ticks clock scheduled_time k n =
     concat (map (\<lambda>j. [Remaining (scheduled_time - clock j), Sleep 1]) [k..<n])"

text \<open>A clock that advances between any two readings.\<close>

definition advancing :: "(nat \<Rightarrow> int) \<Rightarrow> bool" where
  "advancing clock = (\<forall>k. clock k < clock (Suc k))"

text \<open>For the concrete examples: a clock read exactly once a second, from instant 0.\<close>

definition second_clock :: "nat \<Rightarrow> int" where
  "second_clock k = int k * 1000000"

section \<open>The signature\<close>

lemma query_string_canonical:
  "query_string fstr (string_params kvs) = canonical kvs"
  by (induction kvs rule: canonical.induct) (simp_all add: query_string_def string_params_def)

lemma hex_digit_lower: "d < 16 \<Longrightarrow> hex_digit d \<in> set ''0123456789abcdef''"
  unfolding hex_digit_def by (rule nth_mem) simp

lemma hex_byte_lower: "set (hex_byte b) \<subseteq> set ''0123456789abcdef''"
proof -
  have "unat b < 256" using unsigned_less [of b] by simp
  then have "unat b div 16 < 16" by simp
  moreover have "unat b mod 16 < 16" by simp
  ultimately show ?thesis
    using hex_digit_lower [of "unat b div 16"] hex_digit_lower [of "unat b mod 16"]
    by (simp add: hex_byte_def)
qed

lemma length_hexdigest: "length (hexdigest bs) = 2 * length bs"
  by (induction bs) (simp_all add: hexdigest_def hex_byte_def)

lemma hexdigest_lower: "set (hexdigest bs) \<subseteq> set ''0123456789abcdef''"
  unfolding hexdigest_def using hex_byte_lower by (induction bs) auto

lemma length_state_bytes: "length (state_bytes st) = 32"
  by (cases st rule: state_bytes.cases) (simp add: word_bytes_def)

lemma length_sha256: "length (sha256 m) = 32"
  by (simp add: sha256_def Let_def length_state_bytes)

lemma length_hmac_sha256: "length (hmac_sha256 key msg) = 32"
  by (simp add: hmac_sha256_def Let_def length_sha256)

lemma length_sign: "length (sign secret msg) = 64"
  by (simp add: sign_def length_hexdigest length_hmac_sha256)

lemma example_trader_simps:
  "secret_key example_trader = Some ''s''" "api_key example_trader = Some ''k''"
  "base_url example_trader = ''https://api.binance.com''"
  by (simp_all add: example_trader_def init_trader_def)

text \<open>
  C1. For every ordered mapping of string parameters and every secret, the signer
  returns the lowercase hexadecimal HMAC-SHA256 digest, keyed by the secret, of the
  parameters serialised as \<open>key1=value1&key2=value2...\<close> in insertion order. The result
  is determined by the mapping and the secret alone: it is 64 characters, each a
  lowercase hexadecimal digit.
\<close>

theorem signature_is_hex_hmac_of_ordered_pairs:
  assumes "secret_key t = Some secret"
  shows "\<exists>sig. generate_signature fstr t (string_params kvs) = Inr sig
           \<and> sig = hexdigest (hmac_sha256 (encode_utf8 secret) (encode_utf8 (canonical kvs)))
           \<and> length sig = 64 \<and> set sig \<subseteq> set ''0123456789abcdef''"
proof -
  let ?sig = "sign secret (canonical kvs)"
  have "generate_signature fstr t (string_params kvs) = Inr ?sig"
    using assms by (simp add: generate_signature_def query_string_canonical)
  moreover have "?sig = hexdigest (hmac_sha256 (encode_utf8 secret) (encode_utf8 (canonical kvs)))"
    by (simp add: sign_def)
  moreover have "length ?sig = 64" by (rule length_sign)
  moreover have "set ?sig \<subseteq> set ''0123456789abcdef''"
    unfolding sign_def by (rule hexdigest_lower)
  ultimately show ?thesis by blast
qed

theorem signature_is_hex_hmac_of_ordered_pairs_witness:
  "\<exists>sig. generate_signature whole_float_str
            example_trader
            (string_params
               [(''symbol'', ''BTCUSDT''), (''side'', ''BUY''), (''type'', ''LIMIT''),
                (''timeInForce'', ''GTC''), (''quantity'', ''1''), (''price'', ''100''),
                (''timestamp'', ''1700000000000'')]) = Inr sig
         \<and> sig = hexdigest (hmac_sha256 (encode_utf8 ''s'') (encode_utf8
             ''symbol=BTCUSDT&side=BUY&type=LIMIT&timeInForce=GTC&quantity=1&price=100&timestamp=1700000000000''))
         \<and> length sig = 64 \<and> set sig \<subseteq> set ''0123456789abcdef''"
  using signature_is_hex_hmac_of_ordered_pairs
    [of example_trader "''s''" whole_float_str
        "[(''symbol'', ''BTCUSDT''), (''side'', ''BUY''), (''type'', ''LIMIT''),
          (''timeInForce'', ''GTC''), (''quantity'', ''1''), (''price'', ''100''),
          (''timestamp'', ''1700000000000'')]"]
  by (simp add: example_trader_simps)

section \<open>The requests the client sends\<close>

lemma join_snoc: "qs \<noteq> [] \<Longrightarrow> join sep (qs @ [q]) = join sep qs @ sep @ q"
  by (induction sep qs rule: join.induct) simp_all

lemma query_string_snoc:
  "ps \<noteq> [] \<Longrightarrow>
     query_string fstr (ps @ [(k, v)]) = query_string fstr ps @ ''&'' @ k @ ''='' @ py_str fstr v"
  by (simp add: query_string_def join_snoc)

lemma wire_query_snoc:
  "ps \<noteq> [] \<Longrightarrow>
     wire_query fstr (ps @ [(k, v)])
       = wire_query fstr ps @ ''&'' @ quote_plus k @ ''='' @ quote_plus (py_str fstr v)"
  by (simp add: wire_query_def join_snoc)

lemma sent_get_account_info:
  assumes "secret_key t = Some secret"
  shows "sent (get_account_info fstr net t now_ms) =
           [\<lparr> req_method = ''GET'', req_url = base_url t @ ''/api/v3/account'',
              req_headers = [(''X-MBX-APIKEY'', api_key t)],
              req_params = signed fstr secret (account_params now_ms) \<rparr>]"
  using assms
  by (simp add: get_account_info_def generate_signature_def signed_def account_params_def
      Let_def split: reply.splits body.splits)

lemma sent_place_limit_order:
  assumes "secret_key t = Some secret"
  shows "sent (place_limit_order fstr net t now_ms symbol side quantity price) =
           [\<lparr> req_method = ''POST'', req_url = base_url t @ ''/api/v3/order'',
              req_headers = [(''X-MBX-APIKEY'', api_key t)],
              req_params = signed fstr secret (order_params symbol side quantity price now_ms) \<rparr>]"
  using assms
  by (simp add: place_limit_order_def generate_signature_def signed_def order_params_def
      order_failed_def request_failed_def Let_def
      split: reply.splits body.splits sum.splits option.splits)

lemma signed_params_signed:
  "ps \<noteq> [] \<Longrightarrow> ''signature'' \<notin> set (map fst ps) \<Longrightarrow> signed_params fstr secret (signed fstr secret ps)"
  by (simp add: signed_def signed_params_def)

lemma str_nat_digit: "n < 10 \<Longrightarrow> str_nat n = [digit_char n]"
  by (simp add: str_nat.simps)

lemma str_nat_step: "10 \<le> n \<Longrightarrow> str_nat n = str_nat (n div 10) @ [digit_char (n mod 10)]"
  by (subst str_nat.simps) simp

text \<open>Text made of unreserved characters goes on the wire as it is: decimal numbers,
  hexadecimal digests and the keys of the two requests are such text.\<close>

lemma quote_plus_unreserved: "list_all unreserved s \<Longrightarrow> quote_plus s = s"
  by (induction s) (simp_all add: quote_plus_def quote_char_def)

lemma unreserved_digit_char: "d < 10 \<Longrightarrow> unreserved (digit_char d)"
proof -
  assume "d < 10"
  then have "digit_char d \<in> set ''0123456789''"
    by (simp add: digit_char_def del: set_simps)
  moreover have "\<forall>c \<in> set ''0123456789''. unreserved c"
    by (simp add: unreserved_def)
  ultimately show ?thesis by blast
qed

lemma unreserved_str_nat: "list_all unreserved (str_nat n)"
proof (induction n rule: str_nat.induct)
  case (1 n)
  show ?case
  proof (cases "n < 10")
    case True
    then show ?thesis by (simp add: str_nat_digit unreserved_digit_char)
  next
    case False
    then show ?thesis using 1 by (simp add: str_nat_step unreserved_digit_char)
  qed
qed

lemma unreserved_str_int: "list_all unreserved (str_int i)"
proof -
  have "unreserved CHR ''-''" by (simp add: unreserved_def)
  then show ?thesis by (simp add: str_int_def unreserved_str_nat)
qed

lemma unreserved_sign: "list_all unreserved (sign secret msg)"
proof -
  have "\<forall>c \<in> set ''0123456789abcdef''. unreserved c"
    by (simp add: unreserved_def)
  then show ?thesis
    using hexdigest_lower [of "hmac_sha256 (encode_utf8 secret) (encode_utf8 msg)"]
    unfolding sign_def list_all_iff by blast
qed

lemma quote_plus_keys:
  "quote_plus ''symbol'' = ''symbol''" "quote_plus ''side'' = ''side''"
  "quote_plus ''type'' = ''type''" "quote_plus ''timeInForce'' = ''timeInForce''"
  "quote_plus ''quantity'' = ''quantity''" "quote_plus ''price'' = ''price''"
  "quote_plus ''timestamp'' = ''timestamp''" "quote_plus ''signature'' = ''signature''"
  "quote_plus ''LIMIT'' = ''LIMIT''" "quote_plus ''GTC'' = ''GTC''"
  by (simp_all add: quote_plus_def quote_char_def unreserved_def)

lemma wire_query_signed:
  "ps \<noteq> [] \<Longrightarrow>
     wire_query fstr (signed fstr secret ps)
       = wire_query fstr ps @ ''&signature='' @ sign secret (query_string fstr ps)"
  by (simp add: signed_def wire_query_snoc quote_plus_unreserved unreserved_sign
      quote_plus_keys)

lemma wire_query_account: "wire_query fstr (account_params now_ms) = query_string fstr (account_params now_ms)"
  by (simp add: wire_query_def query_string_def account_params_def quote_plus_unreserved
      unreserved_str_int quote_plus_keys)

text \<open>
  The transmitted text of a mapping is its signed text exactly when every key and every
  rendered value is made of unreserved characters: an encoded character makes the text
  longer, and a blank becomes \<open>+\<close>.
\<close>

lemma length_quote_plus: "length s \<le> length (quote_plus s)"
  by (induction s) (simp_all add: quote_plus_def quote_char_def)

lemma quote_plus_Cons: "quote_plus (c # cs) = quote_char c @ quote_plus cs"
  by (simp add: quote_plus_def)

lemma quote_plus_prefix:
  assumes "quote_plus x @ r1 = x @ r2" and "length r2 \<le> length r1"
  shows "list_all unreserved x \<and> r1 = r2"
  using assms
proof (induction x)
  case Nil
  then show ?case by (simp add: quote_plus_def)
next
  case (Cons c cs)
  have e: "quote_char c @ quote_plus cs @ r1 = c # cs @ r2"
    using Cons.prems(1) by (simp add: quote_plus_Cons)
  have u: "unreserved c"
  proof (rule ccontr)
    assume n: "\<not> unreserved c"
    have b: "\<not> unreserved CHR '' ''" by (simp add: unreserved_def)
    show False
    proof (cases "c = CHR '' ''")
      case True
      then show ?thesis using e b by (simp add: quote_char_def)
    next
      case False
      then have "length (quote_char c @ quote_plus cs @ r1) = 3 + length (quote_plus cs) + length r1"
        using n by (simp add: quote_char_def)
      moreover have "length (c # cs @ r2) = 1 + length cs + length r2"
        by simp
      ultimately show ?thesis
        using e length_quote_plus [of cs] Cons.prems(2) by simp
    qed
  qed
  then have "quote_plus cs @ r1 = cs @ r2"
    using e by (simp add: quote_char_def)
  then show ?case using Cons.IH Cons.prems(2) u by simp
qed

lemma quote_plus_pair:
  assumes "quote_plus k @ ''='' @ quote_plus v @ r1 = k @ ''='' @ v @ r2"
    and "length r2 \<le> length r1"
  shows "list_all unreserved k \<and> list_all unreserved v \<and> r1 = r2"
proof -
  have "length (''='' @ v @ r2) \<le> length (''='' @ quote_plus v @ r1)"
    using assms(2) length_quote_plus [of v] by simp
  from quote_plus_prefix [OF assms(1) this]
  have k: "list_all unreserved k" and "quote_plus v @ r1 = v @ r2" by simp_all
  from quote_plus_prefix [OF this(2) assms(2)] k show ?thesis by simp
qed

lemma length_query_string_wire_query:
  "length (query_string fstr ps) \<le> length (wire_query fstr ps)"
proof (induction ps rule: induct_list012)
  case 1
  show ?case by (simp add: query_string_def wire_query_def)
next
  case (2 p)
  obtain k v where p: "p = (k, v)" by (cases p)
  show ?case
    using length_quote_plus [of k] length_quote_plus [of "py_str fstr v"]
    by (simp add: p query_string_def wire_query_def)
next
  case (3 p q ps)
  obtain k v where p: "p = (k, v)" by (cases p)
  from 3(2) show ?case
    using length_quote_plus [of k] length_quote_plus [of "py_str fstr v"]
    by (simp add: p query_string_def wire_query_def)
qed

lemma wire_query_prefix:
  assumes "wire_query fstr ps @ r1 = query_string fstr ps @ r2" and "length r2 \<le> length r1"
  shows "list_all (\<lambda>(k, v). list_all unreserved k \<and> list_all unreserved (py_str fstr v)) ps
       \<and> r1 = r2"
  using assms
proof (induction ps arbitrary: r1 r2 rule: induct_list012)
  case 1
  then show ?case by (simp add: query_string_def wire_query_def)
next
  case (2 p)
  obtain k v where p: "p = (k, v)" by (cases p)
  from 2 have "quote_plus k @ ''='' @ quote_plus (py_str fstr v) @ r1
      = k @ ''='' @ py_str fstr v @ r2"
    by (simp add: p query_string_def wire_query_def)
  from quote_plus_pair [OF this 2(2)] show ?case by (simp add: p)
next
  case (3 p q ps)
  obtain k v where p: "p = (k, v)" by (cases p)
  let ?r1 = "''&'' @ wire_query fstr (q # ps) @ r1"
  let ?r2 = "''&'' @ query_string fstr (q # ps) @ r2"
  from 3(3) have "quote_plus k @ ''='' @ quote_plus (py_str fstr v) @ ?r1
      = k @ ''='' @ py_str fstr v @ ?r2"
    by (simp add: p query_string_def wire_query_def)
  moreover have "length ?r2 \<le> length ?r1"
    using 3(4) length_query_string_wire_query [of fstr "q # ps"] by simp
  ultimately have a: "list_all unreserved k \<and> list_all unreserved (py_str fstr v) \<and> ?r1 = ?r2"
    by (rule quote_plus_pair)
  then have "wire_query fstr (q # ps) @ r1 = query_string fstr (q # ps) @ r2"
    by simp
  from 3(2) [OF this 3(4)] a show ?case by (simp add: p)
qed

lemma wire_query_plain:
  assumes "list_all (\<lambda>(k, v). list_all unreserved k \<and> list_all unreserved (py_str fstr v)) ps"
  shows "wire_query fstr ps = query_string fstr ps"
proof -
  have "map (\<lambda>(k, v). quote_plus k @ ''='' @ quote_plus (py_str fstr v)) ps
      = map (\<lambda>(k, v). k @ ''='' @ py_str fstr v) ps"
    using assms by (induction ps) (auto simp add: quote_plus_unreserved)
  then show ?thesis
    unfolding wire_query_def query_string_def by (rule arg_cong)
qed

lemma wire_query_eq_iff:
  "wire_query fstr ps = query_string fstr ps
     \<longleftrightarrow> list_all (\<lambda>(k, v). list_all unreserved k \<and> list_all unreserved (py_str fstr v)) ps"
  using wire_query_prefix [of fstr ps "[]" "[]"] wire_query_plain [of fstr ps] by auto

lemma unreserved_keys:
  "list_all unreserved ''symbol''" "list_all unreserved ''side''" "list_all unreserved ''type''"
  "list_all unreserved ''timeInForce''" "list_all unreserved ''quantity''"
  "list_all unreserved ''price''" "list_all unreserved ''timestamp''"
  "list_all unreserved ''LIMIT''" "list_all unreserved ''GTC''"
  by (simp_all add: unreserved_def)

lemma wire_query_order:
  "wire_query fstr (order_params symbol side quantity price now_ms)
       = query_string fstr (order_params symbol side quantity price now_ms)
     \<longleftrightarrow> list_all unreserved (upper symbol @ upper side @ fstr quantity @ fstr price)"
  unfolding wire_query_eq_iff order_params_def
  using unreserved_keys unreserved_str_int [of now_ms]
  by simp

text \<open>The signed text and the transmitted text of the concrete examples.\<close>

lemma example_texts:
  "query_string whole_float_str
     [(''symbol'', PStr ''BTC/USDT''), (''side'', PStr ''BUY''), (''type'', PStr ''LIMIT''),
      (''timeInForce'', PStr ''GTC''), (''quantity'', PFloat 1), (''price'', PFloat 100),
      (''timestamp'', PInt 1700000000000)]
   = ''symbol=BTC/USDT&side=BUY&type=LIMIT&timeInForce=GTC&quantity=1.0&price=100.0&timestamp=1700000000000''"
  "wire_query whole_float_str
     [(''symbol'', PStr ''BTC/USDT''), (''side'', PStr ''BUY''), (''type'', PStr ''LIMIT''),
      (''timeInForce'', PStr ''GTC''), (''quantity'', PFloat 1), (''price'', PFloat 100),
      (''timestamp'', PInt 1700000000000)]
   = ''symbol=BTC%2FUSDT&side=BUY&type=LIMIT&timeInForce=GTC&quantity=1.0&price=100.0&timestamp=1700000000000''"
  "query_string whole_float_str
     [(''symbol'', PStr ''BTCUSDT''), (''side'', PStr ''BUY''), (''type'', PStr ''LIMIT''),
      (''timeInForce'', PStr ''GTC''), (''quantity'', PFloat 1), (''price'', PFloat 100),
      (''timestamp'', PInt 1700000000000)]
   = ''symbol=BTCUSDT&side=BUY&type=LIMIT&timeInForce=GTC&quantity=1.0&price=100.0&timestamp=1700000000000''"
  "wire_query whole_float_str
     [(''symbol'', PStr ''BTCUSDT''), (''side'', PStr ''BUY''), (''type'', PStr ''LIMIT''),
      (''timeInForce'', PStr ''GTC''), (''quantity'', PFloat 1), (''price'', PFloat 100),
      (''timestamp'', PInt 1700000000000)]
   = ''symbol=BTCUSDT&side=BUY&type=LIMIT&timeInForce=GTC&quantity=1.0&price=100.0&timestamp=1700000000000''"
  "query_string whole_float_str [(''timestamp'', PInt 1700000000000)] = ''timestamp=1700000000000''"
  by (simp_all add: query_string_def wire_query_def quote_plus_def quote_char_def unreserved_def
      upper_hex_def whole_float_str_def str_int_def str_nat_step str_nat_digit digit_char_def)

text \<open>
  C2 (what the code does, against the claim). Every authenticated request the client
  builds, the account query and the limit order alike, carries a parameter mapping whose
  last key is \<open>signature\<close>, with no earlier key of that name; its value is the signature
  of the text \<open>key=value&...\<close> of the pairs before it, in their order. The text the
  transport sends for the mapping is the percent-encoded text of those pairs followed by
  \<open>&signature=\<close> and the signature. For the account query the two texts are the same.
  For an order they are the same exactly when the upper-cased symbol and side and the
  rendered quantity and price hold unreserved characters only; in every other case the
  signature travels with a text other than the one it was computed over, as for the
  symbol \<open>BTC/USDT\<close>, signed as \<open>symbol=BTC/USDT\<close> and sent as
  \<open>symbol=BTC%2FUSDT\<close>.
\<close>

theorem signed_text_and_transmitted_text:
  assumes "secret_key t = Some secret"
  shows "(\<exists>req. sent (get_account_info fstr net t now_ms) = [req]
            \<and> signed_params fstr secret (req_params req)
            \<and> map fst (req_params req) = [''timestamp'', ''signature'']
            \<and> wire_query fstr (req_params req)
                = query_string fstr (butlast (req_params req)) @ ''&signature=''
                    @ sign secret (query_string fstr (butlast (req_params req))))
       \<and> (\<exists>req. sent (place_limit_order fstr net t now_ms symbol side quantity price) = [req]
            \<and> signed_params fstr secret (req_params req)
            \<and> map fst (req_params req)
                = [''symbol'', ''side'', ''type'', ''timeInForce'', ''quantity'', ''price'',
                   ''timestamp'', ''signature'']
            \<and> wire_query fstr (req_params req)
                = wire_query fstr (butlast (req_params req)) @ ''&signature=''
                    @ sign secret (query_string fstr (butlast (req_params req)))
            \<and> (wire_query fstr (butlast (req_params req))
                  = query_string fstr (butlast (req_params req))
                \<longleftrightarrow> list_all unreserved
                      (upper symbol @ upper side @ fstr quantity @ fstr price)))"
proof (intro conjI)
  let ?a = "account_params now_ms"
  have a: "?a \<noteq> []" "''signature'' \<notin> set (map fst ?a)"
    by (simp_all add: account_params_def)
  have "butlast (signed fstr secret ?a) = ?a"
    by (simp add: signed_def)
  moreover have "map fst (signed fstr secret ?a) = [''timestamp'', ''signature'']"
    by (simp add: signed_def account_params_def)
  ultimately show "\<exists>req. sent (get_account_info fstr net t now_ms) = [req]
            \<and> signed_params fstr secret (req_params req)
            \<and> map fst (req_params req) = [''timestamp'', ''signature'']
            \<and> wire_query fstr (req_params req)
                = query_string fstr (butlast (req_params req)) @ ''&signature=''
                    @ sign secret (query_string fstr (butlast (req_params req)))"
    using sent_get_account_info [OF assms, of fstr net now_ms]
      signed_params_signed [OF a, of fstr secret] wire_query_signed [OF a(1), of fstr secret]
      wire_query_account [of fstr now_ms]
    by simp
next
  let ?o = "order_params symbol side quantity price now_ms"
  have o: "?o \<noteq> []" "''signature'' \<notin> set (map fst ?o)"
    by (simp_all add: order_params_def)
  have "butlast (signed fstr secret ?o) = ?o"
    by (simp add: signed_def)
  moreover have "map fst (signed fstr secret ?o)
      = [''symbol'', ''side'', ''type'', ''timeInForce'', ''quantity'', ''price'',
         ''timestamp'', ''signature'']"
    by (simp add: signed_def order_params_def)
  moreover have "wire_query fstr ?o = query_string fstr ?o
      \<longleftrightarrow> list_all unreserved (upper symbol @ upper side @ fstr quantity @ fstr price)"
    by (rule wire_query_order)
  ultimately show "\<exists>req. sent (place_limit_order fstr net t now_ms symbol side quantity price) = [req]
            \<and> signed_params fstr secret (req_params req)
            \<and> map fst (req_params req)
                = [''symbol'', ''side'', ''type'', ''timeInForce'', ''quantity'', ''price'',
                   ''timestamp'', ''signature'']
            \<and> wire_query fstr (req_params req)
                = wire_query fstr (butlast (req_params req)) @ ''&signature=''
                    @ sign secret (query_string fstr (butlast (req_params req)))
            \<and> (wire_query fstr (butlast (req_params req))
                  = query_string fstr (butlast (req_params req))
                \<longleftrightarrow> list_all unreserved
                      (upper symbol @ upper side @ fstr quantity @ fstr price))"
    using sent_place_limit_order [OF assms, of fstr net now_ms symbol side quantity price]
      signed_params_signed [OF o, of fstr secret] wire_query_signed [OF o(1), of fstr secret]
    by simp
qed

theorem signed_text_and_transmitted_text_witness:
  "(\<exists>req. sent (place_limit_order whole_float_str (always (Raised ''timeout'' None))
              example_trader 1700000000000 ''BTC/USDT'' ''buy'' 1 100) = [req]
          \<and> snd (last (req_params req))
              = PStr (sign ''s''
                  ''symbol=BTC/USDT&side=BUY&type=LIMIT&timeInForce=GTC&quantity=1.0&price=100.0&timestamp=1700000000000'')
          \<and> wire_query whole_float_str (butlast (req_params req))
              = ''symbol=BTC%2FUSDT&side=BUY&type=LIMIT&timeInForce=GTC&quantity=1.0&price=100.0&timestamp=1700000000000'')
   \<and> (\<exists>req. sent (place_limit_order whole_float_str (always (Raised ''timeout'' None))
              example_trader 1700000000000 ''btcusdt'' ''buy'' 1 100) = [req]
          \<and> list_all unreserved (upper ''btcusdt'' @ upper ''buy'' @ whole_float_str 1
                @ whole_float_str 100)
          \<and> snd (last (req_params req))
              = PStr (sign ''s''
                  ''symbol=BTCUSDT&side=BUY&type=LIMIT&timeInForce=GTC&quantity=1.0&price=100.0&timestamp=1700000000000'')
          \<and> wire_query whole_float_str (butlast (req_params req))
              = ''symbol=BTCUSDT&side=BUY&type=LIMIT&timeInForce=GTC&quantity=1.0&price=100.0&timestamp=1700000000000'')
   \<and> (\<exists>req. sent (get_account_info whole_float_str (always (Raised ''timeout'' None))
              example_trader 1700000000000) = [req]
          \<and> req_params req
              = [(''timestamp'', PInt 1700000000000),
                 (''signature'', PStr (sign ''s'' ''timestamp=1700000000000''))]
          \<and> wire_query whole_float_str (req_params req)
              = ''timestamp=1700000000000&signature='' @ sign ''s'' ''timestamp=1700000000000'')"
  using signed_text_and_transmitted_text
    [of example_trader "''s''" whole_float_str "always (Raised ''timeout'' None)" 1700000000000
        "''BTC/USDT''" "''buy''" 1 100]
    signed_text_and_transmitted_text
    [of example_trader "''s''" whole_float_str "always (Raised ''timeout'' None)" 1700000000000
        "''btcusdt''" "''buy''" 1 100]
  by (simp add: example_trader_simps get_account_info_def place_limit_order_def
      generate_signature_def order_failed_def request_failed_def always_def example_texts
      unreserved_def whole_float_str_def str_int_def str_nat_step str_nat_digit digit_char_def
      upper_def upper_char_def)

section \<open>The account query\<close>

text \<open>
  C5 (what the code does, against the claim). When a response arrives whose body is
  JSON, \<open>get_account_info\<close> returns the decoded body without a report, whatever the
  status: \<open>raise_for_status\<close> is not called, so the error payload of a 401 comes back as
  if it were the account, and the balance step of \<open>main\<close> then fails with
  \<open>KeyError\<close> on \<open>balances\<close>.
\<close>

theorem account_query_ignores_status:
  assumes "secret_key t = Some secret" and "body r = JSON j"
  shows "returned (get_account_info fstr (always (Responded r)) t now_ms) = Inr j
       \<and> printed (get_account_info fstr (always (Responded r)) t now_ms) = []"
  using assms by (simp add: get_account_info_def generate_signature_def always_def Let_def)

theorem account_query_ignores_status_witness:
  "returned (get_account_info whole_float_str
       (always (Responded \<lparr> status_code = 401, reason = ''Unauthorized'',
            resp_url = ''https://api.binance.com/api/v3/account'',
            body = JSON (JObj [(''code'', JNum (- 2015)), (''msg'', JStr ''Invalid API-key'')]) \<rparr>))
       example_trader 1700000000000)
     = Inr (JObj [(''code'', JNum (- 2015)), (''msg'', JStr ''Invalid API-key'')])
   \<and> printed (get_account_info whole_float_str
       (always (Responded \<lparr> status_code = 401, reason = ''Unauthorized'',
            resp_url = ''https://api.binance.com/api/v3/account'',
            body = JSON (JObj [(''code'', JNum (- 2015)), (''msg'', JStr ''Invalid API-key'')]) \<rparr>))
       example_trader 1700000000000) = []
   \<and> returned (show_balance whole_float_str example_float
       (always (Responded \<lparr> status_code = 401, reason = ''Unauthorized'',
            resp_url = ''https://api.binance.com/api/v3/account'',
            body = JSON (JObj [(''code'', JNum (- 2015)), (''msg'', JStr ''Invalid API-key'')]) \<rparr>))
       example_trader 1700000000000)
     = Inl (KeyError ''balances'')"
  using account_query_ignores_status
    [of example_trader "''s''"
        "\<lparr> status_code = 401, reason = ''Unauthorized'',
            resp_url = ''https://api.binance.com/api/v3/account'',
            body = JSON (JObj [(''code'', JNum (- 2015)), (''msg'', JStr ''Invalid API-key'')]) \<rparr>"
        "JObj [(''code'', JNum (- 2015)), (''msg'', JStr ''Invalid API-key'')]"
        whole_float_str 1700000000000]
  by (simp add: example_trader_simps show_balance_def print_balance_def stopped_def Let_def)

text \<open>The failures the query does catch: a call that raises and a body that is not
  JSON are reported and give \<open>None\<close>.\<close>

lemma account_query_failures:
  assumes "secret_key t = Some secret"
  shows "returned (get_account_info fstr (always (Raised msg resp)) t now_ms) = Inr JNull"
    and "printed (get_account_info fstr (always (Raised msg resp)) t now_ms)
           = [AccountFailed msg]"
    and "body r = NotJSON msg \<Longrightarrow>
           returned (get_account_info fstr (always (Responded r)) t now_ms) = Inr JNull"
    and "body r = NotJSON msg \<Longrightarrow>
           printed (get_account_info fstr (always (Responded r)) t now_ms) = [AccountFailed msg]"
  using assms by (simp_all add: get_account_info_def generate_signature_def always_def Let_def)

text \<open>With no secret configured the signer raises before the \<open>try\<close>, in both methods.\<close>

lemma no_secret_raises:
  assumes "secret_key t = None"
  shows "returned (get_account_info fstr net t now_ms) = Inl AttributeError"
    and "returned (place_limit_order fstr net t now_ms symbol side quantity price)
           = Inl AttributeError"
  using assms
  by (simp_all add: get_account_info_def place_limit_order_def generate_signature_def Let_def)

section \<open>Order placement\<close>

text \<open>
  C6 (what the code does, against the claim). For every response with an error status
  the message \<open>place_limit_order\<close> reports is the status line that
  \<open>raise_for_status\<close> puts in the exception, whatever the body holds: the handler tests
  the truth value of the response, which is false for every such status, so the
  \<open>msg\<close> member is never read. The order is reported as failed, \<open>None\<close> is returned
  and exactly one request has been sent.
\<close>

theorem order_rejection_reports_status_line:
  assumes "secret_key t = Some secret" and "is_http_error r"
  shows "printed (place_limit_order fstr (always (Responded r)) t now_ms symbol side quantity price)
           = [SubmitHeader, OrderFailed (JStr (http_error_text r))]
       \<and> returned (place_limit_order fstr (always (Responded r)) t now_ms symbol side quantity price)
           = Inr JNull
       \<and> length (sent (place_limit_order fstr (always (Responded r)) t now_ms symbol side
             quantity price)) = 1"
  using assms
  by (simp add: place_limit_order_def generate_signature_def order_failed_def request_failed_def response_bool_def
      always_def Let_def)

theorem order_rejection_reports_status_line_witness:
  "printed (place_limit_order whole_float_str
       (always (Responded \<lparr> status_code = 400, reason = ''Bad Request'',
            resp_url = ''https://api.binance.com/api/v3/order'',
            body = JSON (JObj [(''msg'', JStr ''Insufficient balance'')]) \<rparr>))
       example_trader 1700000000000 ''BTCUSDT'' ''BUY'' 1 100)
     = [SubmitHeader,
        OrderFailed (JStr ''400 Client Error: Bad Request for url: https://api.binance.com/api/v3/order'')]
   \<and> returned (place_limit_order whole_float_str
       (always (Responded \<lparr> status_code = 400, reason = ''Bad Request'',
            resp_url = ''https://api.binance.com/api/v3/order'',
            body = JSON (JObj [(''msg'', JStr ''Insufficient balance'')]) \<rparr>))
       example_trader 1700000000000 ''BTCUSDT'' ''BUY'' 1 100) = Inr JNull"
  using order_rejection_reports_status_line
    [of example_trader "''s''"
        "\<lparr> status_code = 400, reason = ''Bad Request'',
            resp_url = ''https://api.binance.com/api/v3/order'',
            body = JSON (JObj [(''msg'', JStr ''Insufficient balance'')]) \<rparr>"
        whole_float_str 1700000000000 "''BTCUSDT''" "''BUY''" 1 100]
  by (simp add: example_trader_simps is_http_error_def http_error_text_def str_nat_step
      str_nat_digit digit_char_def)

text \<open>The other outcomes of the one attempt: a call that raises with no response is
  reported with its own text, and a response below 400 with a JSON body is returned.\<close>

lemma order_other_outcomes:
  assumes "secret_key t = Some secret"
  shows "printed (place_limit_order fstr (always (Raised msg None)) t now_ms symbol side
             quantity price) = [SubmitHeader, OrderFailed (JStr msg)]"
    and "\<not> is_http_error r \<Longrightarrow> body r = JSON j \<Longrightarrow>
           returned (place_limit_order fstr (always (Responded r)) t now_ms symbol side quantity
             price) = Inr j"
  using assms
  by (simp_all add: place_limit_order_def generate_signature_def order_failed_def request_failed_def always_def
      Let_def)

text \<open>An exception that carries a response whose status is below 400 (the one raised
  after too many redirects carries the last redirect) makes the handler read the
  \<open>msg\<close> member of the body; what that raises is not caught and leaves the method.\<close>

lemma failure_with_response_below_400:
  assumes "secret_key t = Some secret" and "\<not> is_http_error r"
  shows "body r = NotJSON m \<Longrightarrow>
           returned (place_limit_order fstr (always (Raised msg (Some r))) t now_ms symbol side
             quantity price) = Inl ValueError"
    and "body r = JSON j \<Longrightarrow> subscript j ''msg'' = Inl e \<Longrightarrow>
           returned (place_limit_order fstr (always (Raised msg (Some r))) t now_ms symbol side
             quantity price) = Inl e"
    and "body r = JSON j \<Longrightarrow> subscript j ''msg'' = Inr v \<Longrightarrow>
           printed (place_limit_order fstr (always (Raised msg (Some r))) t now_ms symbol side
             quantity price) = [SubmitHeader, OrderFailed v]"
  using assms
  by (simp_all add: place_limit_order_def generate_signature_def order_failed_def
      request_failed_def response_bool_def always_def Let_def)

text \<open>
  C7, as stated: no request with a non-positive quantity or price is signed or
  transmitted. It fails: an order for the quantity \<open>-2\<close> at the price \<open>-5\<close> is signed,
  with both values in the signed string, and handed to the transport.
\<close>

theorem nonpositive_order_is_sent:
  "(- 2 :: real) \<le> 0 \<and> (- 5 :: real) \<le> 0
   \<and> map req_params (sent (place_limit_order whole_float_str (always (Raised ''timeout'' None))
         example_trader 1700000000000 ''BTCUSDT'' ''BUY'' (- 2) (- 5)))
     = [[(''symbol'', PStr ''BTCUSDT''), (''side'', PStr ''BUY''),
         (''type'', PStr ''LIMIT''), (''timeInForce'', PStr ''GTC''),
         (''quantity'', PFloat (- 2)), (''price'', PFloat (- 5)),
         (''timestamp'', PInt 1700000000000),
         (''signature'', PStr (sign ''s''
            ''symbol=BTCUSDT&side=BUY&type=LIMIT&timeInForce=GTC&quantity=-2.0&price=-5.0&timestamp=1700000000000''))]]"
  by (simp add: example_trader_simps place_limit_order_def generate_signature_def
      order_failed_def request_failed_def always_def query_string_def whole_float_str_def str_int_def str_nat_step
      str_nat_digit digit_char_def upper_def upper_char_def)

text \<open>
  C7, amended. \<open>place_limit_order\<close> validates neither quantity nor price: for every
  quantity and price, positive or not, it signs the parameters and hands one request
  with that quantity and price to the transport. The only check in the program is the
  guard of \<open>main\<close>, which places no order exactly when the symbol or the side is missing
  or empty, or the quantity or the price is missing or zero; a negative value passes it.
\<close>

theorem order_placement_does_not_validate:
  assumes "secret_key t = Some secret"
  shows "(\<exists>req. sent (place_limit_order fstr net t now_ms symbol side quantity price) = [req]
            \<and> signed_params fstr secret (req_params req)
            \<and> (''quantity'', PFloat quantity) \<in> set (req_params req)
            \<and> (''price'', PFloat price) \<in> set (req_params req))
       \<and> (main_order fstr net t now_ms sy si q p = None
            \<longleftrightarrow> sy = None \<or> sy = Some [] \<or> si = None \<or> si = Some []
               \<or> q = None \<or> q = Some 0 \<or> p = None \<or> p = Some 0)"
proof (intro conjI)
  let ?o = "order_params symbol side quantity price now_ms"
  have o: "?o \<noteq> []" "''signature'' \<notin> set (map fst ?o)"
    by (simp_all add: order_params_def)
  have "(''quantity'', PFloat quantity) \<in> set (signed fstr secret ?o)"
    "(''price'', PFloat price) \<in> set (signed fstr secret ?o)"
    by (simp_all add: signed_def order_params_def)
  then show "\<exists>req. sent (place_limit_order fstr net t now_ms symbol side quantity price) = [req]
            \<and> signed_params fstr secret (req_params req)
            \<and> (''quantity'', PFloat quantity) \<in> set (req_params req)
            \<and> (''price'', PFloat price) \<in> set (req_params req)"
    using sent_place_limit_order [OF assms, of fstr net now_ms symbol side quantity price]
      signed_params_signed [OF o, of fstr secret]
    by simp
next
  show "main_order fstr net t now_ms sy si q p = None
            \<longleftrightarrow> sy = None \<or> sy = Some [] \<or> si = None \<or> si = Some []
               \<or> q = None \<or> q = Some 0 \<or> p = None \<or> p = Some 0"
    by (auto simp add: main_order_def split: option.splits)
qed

theorem order_placement_does_not_validate_witness:
  "(\<exists>req. sent (place_limit_order whole_float_str (always (Raised ''timeout'' None)) example_trader
              1700000000000 ''BTCUSDT'' ''BUY'' (- 2) (- 5)) = [req]
          \<and> (''quantity'', PFloat (- 2)) \<in> set (req_params req)
          \<and> (''price'', PFloat (- 5)) \<in> set (req_params req))
   \<and> main_order whole_float_str (always (Raised ''timeout'' None)) example_trader 1700000000000
         (Some ''BTCUSDT'') (Some ''BUY'') (Some 0) (Some 100) = None
   \<and> main_order whole_float_str (always (Raised ''timeout'' None)) example_trader 1700000000000
         (Some ''BTCUSDT'') (Some ''BUY'') (Some (- 2)) (Some (- 5)) \<noteq> None"
  using order_placement_does_not_validate
      [of example_trader "''s''" whole_float_str "always (Raised ''timeout'' None)" 1700000000000
          "''BTCUSDT''" "''BUY''" "- 2" "- 5" "Some ''BTCUSDT''" "Some ''BUY''" "Some 0" "Some 100"]
    order_placement_does_not_validate
      [of example_trader "''s''" whole_float_str "always (Raised ''timeout'' None)" 1700000000000
          "''BTCUSDT''" "''BUY''" "- 2" "- 5" "Some ''BTCUSDT''" "Some ''BUY''" "Some (- 2)"
          "Some (- 5)"]
  by (auto simp add: example_trader_simps)

section \<open>Time resolution\<close>

lemma digit_char_props:
  assumes "d < 10"
  shows "is_digit (digit_char d)" and "digit_val (digit_char d) = d"
    and "\<not> is_space (digit_char d)" and "digit_char d \<noteq> CHR ''+''"
    and "digit_char d \<noteq> CHR ''-''" and "digit_char d \<noteq> CHR '':''"
    and "digit_char d \<noteq> CHR ''_''"
proof -
  from assms consider "d = 0" | "d = 1" | "d = 2" | "d = 3" | "d = 4" | "d = 5"
    | "d = 6" | "d = 7" | "d = 8" | "d = 9"
    by atomize_elim arith
  then have "is_digit (digit_char d) \<and> digit_val (digit_char d) = d
      \<and> \<not> is_space (digit_char d) \<and> digit_char d \<noteq> CHR ''+''
      \<and> digit_char d \<noteq> CHR ''-'' \<and> digit_char d \<noteq> CHR '':''
      \<and> digit_char d \<noteq> CHR ''_''"
    by cases (simp_all add: digit_char_def is_digit_def digit_val_def is_space_def)
  then show "is_digit (digit_char d)" and "digit_val (digit_char d) = d"
    and "\<not> is_space (digit_char d)" and "digit_char d \<noteq> CHR ''+''"
    and "digit_char d \<noteq> CHR ''-''" and "digit_char d \<noteq> CHR '':''"
    and "digit_char d \<noteq> CHR ''_''"
    by simp_all
qed

lemma py_int_two_digits:
  assumes "n < 100"
  shows "py_int (two_digits n) = Some (int n)"
proof -
  have a: "n div 10 < 10" and b: "n mod 10 < 10" using assms by simp_all
  have "strip (two_digits n) = two_digits n"
    using digit_char_props(3) [OF a] digit_char_props(3) [OF b]
    by (simp add: strip_def two_digits_def)
  moreover have "py_digits (two_digits n) = Some n"
    using digit_char_props(1,2) [OF a] digit_char_props(1,2) [OF b]
    by (simp add: py_digits_def MAX_STR_DIGITS_def two_digits_def)
  ultimately show ?thesis
    using digit_char_props(4,5) [OF a]
    by (simp add: py_int_def two_digits_def)
qed

lemma split_on_nonempty: "split_on c s \<noteq> []"
  by (induction s) (auto split: list.splits)

lemma split_on_no_sep: "c \<notin> set s \<Longrightarrow> split_on c s = [s]"
  by (induction s) auto

lemma split_on_two: "c \<notin> set a \<Longrightarrow> c \<notin> set b \<Longrightarrow> split_on c (a @ c # b) = [a, b]"
  by (induction a) (auto simp add: split_on_no_sep)

lemma split_on_join: "join [c] (split_on c s) = s"
proof (induction s)
  case Nil
  show ?case by simp
next
  case (Cons x s)
  show ?case
  proof (cases "x = c")
    case True
    obtain p ps where "split_on c s = p # ps"
      using split_on_nonempty [of c s] by (cases "split_on c s") auto
    with Cons True show ?thesis by simp
  next
    case False
    obtain p ps where ps: "split_on c s = p # ps"
      using split_on_nonempty [of c s] by (cases "split_on c s") auto
    with Cons False show ?thesis by (cases ps) auto
  qed
qed

lemma split_on_parts: "p \<in> set (split_on c s) \<Longrightarrow> c \<notin> set p"
  by (induction s arbitrary: p) (auto split: if_splits list.splits)

lemma split_on_two_iff:
  "split_on c s = [a, b] \<longleftrightarrow> s = a @ c # b \<and> c \<notin> set a \<and> c \<notin> set b"
proof
  assume h: "split_on c s = [a, b]"
  have "join [c] (split_on c s) = s" by (rule split_on_join)
  with h have "s = a @ c # b" by simp
  moreover have "c \<notin> set a" "c \<notin> set b"
    using split_on_parts [of a c s] split_on_parts [of b c s] h by simp_all
  ultimately show "s = a @ c # b \<and> c \<notin> set a \<and> c \<notin> set b" by simp
next
  assume "s = a @ c # b \<and> c \<notin> set a \<and> c \<notin> set b"
  then show "split_on c s = [a, b]" by (simp add: split_on_two)
qed

lemma unpack_fields:
  "unpack_hour_minute (split_on CHR '':'' s)
     = (case fields s of None \<Rightarrow> Inl ValueError | Some hm \<Rightarrow> Inr hm)"
  by (auto simp add: unpack_hour_minute_def fields_def split: list.splits option.splits)

lemma fields_Some_iff:
  "fields s = Some (h, m)
     \<longleftrightarrow> (\<exists>a b. s = a @ '':'' @ b \<and> CHR '':'' \<notin> set a \<and> CHR '':'' \<notin> set b
            \<and> py_int a = Some h \<and> py_int b = Some m)"
proof
  assume "fields s = Some (h, m)"
  then obtain a b where "split_on CHR '':'' s = [a, b]" "py_int a = Some h" "py_int b = Some m"
    by (auto simp add: fields_def split: list.splits option.splits)
  then show "\<exists>a b. s = a @ '':'' @ b \<and> CHR '':'' \<notin> set a \<and> CHR '':'' \<notin> set b
            \<and> py_int a = Some h \<and> py_int b = Some m"
    using split_on_two_iff [of "CHR '':''" s a b] by auto
next
  assume "\<exists>a b. s = a @ '':'' @ b \<and> CHR '':'' \<notin> set a \<and> CHR '':'' \<notin> set b
            \<and> py_int a = Some h \<and> py_int b = Some m"
  then obtain a b where "s = a @ CHR '':'' # b" "CHR '':'' \<notin> set a" "CHR '':'' \<notin> set b"
      "py_int a = Some h" "py_int b = Some m"
    by auto
  then show "fields s = Some (h, m)"
    by (simp add: fields_def split_on_two)
qed

lemma fields_hhmm:
  assumes "h < 100" and "m < 100"
  shows "fields (hhmm h m) = Some (int h, int m)"
proof -
  have "n < 100 \<Longrightarrow> CHR '':'' \<notin> set (two_digits n)" for n
  proof -
    assume "n < 100"
    then have "n div 10 < 10" and "n mod 10 < 10" by simp_all
    then show ?thesis
      using digit_char_props(6) [of "n div 10"] digit_char_props(6) [of "n mod 10"]
      by (simp add: two_digits_def)
  qed
  then have "CHR '':'' \<notin> set (two_digits h)" "CHR '':'' \<notin> set (two_digits m)"
    using assms by simp_all
  then show ?thesis
    using fields_Some_iff [of "hhmm h m" "int h" "int m"]
      py_int_two_digits [OF assms(1)] py_int_two_digits [OF assms(2)]
    unfolding hhmm_def by blast
qed

lemma parse_time_input_fields:
  assumes "fields s = Some (h, m)" and "0 \<le> h" and "h \<le> 23" and "0 \<le> m" and "m \<le> 59"
  shows "parse_time_input zone now s
           = (if instant (localize zone (at_time now h m)) < instant now
              then add_days (localize zone (at_time now h m)) 1
              else Inr (localize zone (at_time now h m)))"
proof -
  have "fits_c_int h" "fits_c_int m"
    using assms by (simp_all add: fits_c_int_def)
  then have "new_datetime (ordinal now) h m = Inr (at_time now h m)"
    using assms by (simp add: new_datetime_def at_time_def)
  then show ?thesis
    using assms(1)
    by (simp add: parse_time_input_def unpack_fields add_days_def Let_def split: error.splits)
qed

lemma add_days_tomorrow:
  assumes "valid_datetime now" and "ordinal now < MAXORDINAL"
  shows "add_days (localize zone (at_time now h m)) 1
           = Inr ((localize zone (at_time now h m)) \<lparr> ordinal := ordinal now + 1 \<rparr>)"
  using assms by (simp add: add_days_def at_time_def localize_def valid_datetime_def)

lemma tomorrow_not_before_now:
  assumes "valid_datetime now" and "0 \<le> h" and "0 \<le> m"
    and "zone (at_time now h m) \<le> utcoffset now"
  shows "instant now \<le> instant ((localize zone (at_time now h m)) \<lparr> ordinal := ordinal now + 1 \<rparr>)"
proof -
  let ?z = "zone (at_time now h m)"
  have "((ordinal now * 24 + hour now) * 60 + minute now) * 60 + second now - utcoffset now
      < (((ordinal now + 1) * 24 + h) * 60 + m) * 60 - ?z"
    using assms by (simp add: valid_datetime_def)
  then have "(((ordinal now * 24 + hour now) * 60 + minute now) * 60 + second now - utcoffset now) + 1
      \<le> (((ordinal now + 1) * 24 + h) * 60 + m) * 60 - ?z"
    by simp
  then have "((((ordinal now * 24 + hour now) * 60 + minute now) * 60 + second now - utcoffset now) + 1)
        * 1000000
      \<le> ((((ordinal now + 1) * 24 + h) * 60 + m) * 60 - ?z) * 1000000"
    by (rule mult_right_mono) simp
  moreover have "microsecond now < 1000000"
    using assms(1) by (simp add: valid_datetime_def)
  ultimately show ?thesis
    by (simp add: instant_def localize_def at_time_def algebra_simps)
qed

text \<open>
  C3. For every text \<open>HH:MM\<close> with the hour in 0..23 and the minute in 0..59, time
  resolution builds today's date at that hour and minute and gives it the offset the
  reference timezone has at that wall-clock time. When that instant is not before now
  the result is that same-day instant; when it is strictly before now the result is the
  next calendar day at the same hour, minute and offset: never a later day. Instants
  are compared on the time line, as aware values compare, whatever the offsets of the
  two sides. (Today is a date before the last one the calendar type can hold.) When the
  offset of the target is not ahead of the offset of now, as in a zone of one fixed
  offset, the result is never before now. So \<open>18:00\<close> at 17:59 on day D is day D at
  18:00, and \<open>18:00\<close> at 18:01 on day D is day D+1 at 18:00.
\<close>

theorem resolves_today_or_tomorrow:
  assumes "h < 24" and "m < 60" and "valid_datetime now" and "ordinal now < MAXORDINAL"
  shows "\<exists>dt. parse_time_input zone now (hhmm h m) = Inr dt
           \<and> hour dt = int h \<and> minute dt = int m \<and> second dt = 0 \<and> microsecond dt = 0
           \<and> utcoffset dt = zone (at_time now (int h) (int m))
           \<and> (if instant (localize zone (at_time now (int h) (int m))) < instant now
               then ordinal dt = ordinal now + 1 else ordinal dt = ordinal now)
           \<and> (zone (at_time now (int h) (int m)) \<le> utcoffset now \<longrightarrow> instant now \<le> instant dt)"
proof -
  let ?target = "localize zone (at_time now (int h) (int m))"
  have f: "fields (hhmm h m) = Some (int h, int m)"
    using assms(1,2) by (simp add: fields_hhmm)
  have p: "parse_time_input zone now (hhmm h m)
      = (if instant ?target < instant now then add_days ?target 1 else Inr ?target)"
    using assms(1,2) by (intro parse_time_input_fields [OF f]) simp_all
  show ?thesis
  proof (cases "instant ?target < instant now")
    case True
    have "add_days ?target 1 = Inr (?target \<lparr> ordinal := ordinal now + 1 \<rparr>)"
      using assms(3,4) by (rule add_days_tomorrow)
    moreover have "zone (at_time now (int h) (int m)) \<le> utcoffset now
        \<longrightarrow> instant now \<le> instant (?target \<lparr> ordinal := ordinal now + 1 \<rparr>)"
      using tomorrow_not_before_now [OF assms(3), of "int h" "int m" zone] by simp
    ultimately show ?thesis
      using p True by (simp add: at_time_def localize_def)
  next
    case False
    then show ?thesis
      using p by (simp add: at_time_def localize_def)
  qed
qed

theorem resolves_today_or_tomorrow_witness:
  "parse_time_input utc_plus_8
       \<lparr> ordinal = 739000, hour = 17, minute = 59, second = 0, microsecond = 0,
         utcoffset = 28800 \<rparr> ''18:00''
     = Inr \<lparr> ordinal = 739000, hour = 18, minute = 0, second = 0, microsecond = 0,
             utcoffset = 28800 \<rparr>
   \<and> parse_time_input utc_plus_8
       \<lparr> ordinal = 739000, hour = 18, minute = 1, second = 0, microsecond = 0,
         utcoffset = 28800 \<rparr> ''18:00''
     = Inr \<lparr> ordinal = 739001, hour = 18, minute = 0, second = 0, microsecond = 0,
             utcoffset = 28800 \<rparr>"
  using resolves_today_or_tomorrow
      [where h = 18 and m = 0 and zone = utc_plus_8
         and now = "\<lparr> ordinal = 739000, hour = 17, minute = 59, second = 0, microsecond = 0,
                      utcoffset = 28800 \<rparr>"]
    resolves_today_or_tomorrow
      [where h = 18 and m = 0 and zone = utc_plus_8
         and now = "\<lparr> ordinal = 739000, hour = 18, minute = 1, second = 0, microsecond = 0,
                      utcoffset = 28800 \<rparr>"]
  by (auto simp add: hhmm_def two_digits_def digit_char_def valid_datetime_def MAXORDINAL_def
      instant_def at_time_def localize_def utc_plus_8_def)

text \<open>
  The comparison is of instants, not of clock readings. On 17 April 1988 the clocks of
  Asia/Shanghai went from 02:00 at \<open>+08:00\<close> to 03:00 at \<open>+09:00\<close>; the wall-clock time
  02:30 of that day gets the offset \<open>+08:00\<close> and is then the same instant as 03:30
  at \<open>+09:00\<close>. Asked for \<open>02:30\<close> at 03:30 of that day, time resolution answers that
  day, not the next: the target is not strictly before now.
\<close>

lemma skipped_hour_resolves_to_today:
  "parse_time_input (\<lambda>w. if hour w < 3 then 28800 else 32400)
       \<lparr> ordinal = 725844, hour = 3, minute = 30, second = 0, microsecond = 0,
         utcoffset = 32400 \<rparr> ''02:30''
     = Inr \<lparr> ordinal = 725844, hour = 2, minute = 30, second = 0, microsecond = 0,
             utcoffset = 28800 \<rparr>"
  by (simp add: parse_time_input_def unpack_hour_minute_def py_int_def strip_def
      py_digits_def MAX_STR_DIGITS_def is_space_def is_digit_def digit_val_def new_datetime_def
      fits_c_int_def instant_def localize_def)

text \<open>
  C4, as stated: every text that is not of the form \<open>HH:MM\<close> is rejected. It fails:
  \<open>+18:00\<close> is not of that form and resolves to 18:00, because the fields are read by
  \<open>int\<close>, which takes a sign (and blanks, single digits, underscores between digits).
\<close>

theorem signed_hour_is_accepted:
  "\<not> is_hhmm ''+18:00''
   \<and> parse_time_input utc_plus_8
       \<lparr> ordinal = 739000, hour = 17, minute = 59, second = 0, microsecond = 0,
         utcoffset = 28800 \<rparr> ''+18:00''
     = Inr \<lparr> ordinal = 739000, hour = 18, minute = 0, second = 0, microsecond = 0,
             utcoffset = 28800 \<rparr>"
  by (simp add: is_hhmm_def parse_time_input_def unpack_hour_minute_def py_int_def strip_def
      py_digits_def MAX_STR_DIGITS_def is_space_def is_digit_def digit_val_def new_datetime_def
      fits_c_int_def instant_def localize_def utc_plus_8_def)

lemma parse_time_input_rejects:
  assumes "fields s = None
      \<or> (\<exists>h m. fields s = Some (h, m) \<and> fits_c_int h \<and> fits_c_int m
            \<and> (h < 0 \<or> 23 < h \<or> m < 0 \<or> 59 < m))"
  shows "parse_time_input zone now s = Inl ArgumentTypeError"
  using assms
  by (auto simp add: parse_time_input_def unpack_fields new_datetime_def Let_def)

text \<open>
  C4, amended. On ASCII text, time resolution fails with the format error whenever the
  text does not split at colons into exactly two fields that \<open>int\<close> accepts, and
  whenever the two integers fit a C \<open>int\<close> and the hour is outside 0..23 or the minute
  outside 0..59; so \<open>25:61\<close>, \<open>abc\<close> and \<open>18\<close> are rejected. Two fields that \<open>int\<close>
  accepts and that are in range are resolved, whether or not the text has the form
  \<open>HH:MM\<close>.
\<close>

theorem rejects_what_int_or_the_ranges_reject:
  assumes "ascii_text s"
  shows "(fields s = None
            \<or> (\<exists>h m. fields s = Some (h, m) \<and> fits_c_int h \<and> fits_c_int m
                  \<and> (h < 0 \<or> 23 < h \<or> m < 0 \<or> 59 < m))
          \<longrightarrow> parse_time_input zone now s = Inl ArgumentTypeError)
       \<and> (\<forall>h m. fields s = Some (h, m) \<and> 0 \<le> h \<and> h \<le> 23 \<and> 0 \<le> m \<and> m \<le> 59
              \<and> valid_datetime now \<and> ordinal now < MAXORDINAL
          \<longrightarrow> (\<exists>dt. parse_time_input zone now s = Inr dt \<and> hour dt = h \<and> minute dt = m))"
proof (intro conjI impI allI)
  assume "fields s = None
      \<or> (\<exists>h m. fields s = Some (h, m) \<and> fits_c_int h \<and> fits_c_int m
            \<and> (h < 0 \<or> 23 < h \<or> m < 0 \<or> 59 < m))"
  then show "parse_time_input zone now s = Inl ArgumentTypeError"
    by (rule parse_time_input_rejects)
next
  fix h m
  assume a: "fields s = Some (h, m) \<and> 0 \<le> h \<and> h \<le> 23 \<and> 0 \<le> m \<and> m \<le> 59
              \<and> valid_datetime now \<and> ordinal now < MAXORDINAL"
  let ?target = "localize zone (at_time now h m)"
  from a have "parse_time_input zone now s
      = (if instant ?target < instant now then add_days ?target 1 else Inr ?target)"
    by (intro parse_time_input_fields) simp_all
  moreover have "add_days ?target 1 = Inr (?target \<lparr> ordinal := ordinal now + 1 \<rparr>)"
    using a by (intro add_days_tomorrow) simp_all
  ultimately show "\<exists>dt. parse_time_input zone now s = Inr dt \<and> hour dt = h \<and> minute dt = m"
    by (simp add: at_time_def localize_def)
qed

lemma fields_examples:
  "fields ''25:61'' = Some (25, 61)" "fields ''abc'' = None" "fields ''18'' = None"
  "fields ''+18:00'' = Some (18, 0)"
  by (simp_all add: fields_def py_int_def strip_def py_digits_def MAX_STR_DIGITS_def
      is_space_def is_digit_def digit_val_def)

theorem rejects_what_int_or_the_ranges_reject_witness:
  "parse_time_input utc_plus_8
       \<lparr> ordinal = 739000, hour = 17, minute = 59, second = 0, microsecond = 0,
         utcoffset = 28800 \<rparr> ''25:61'' = Inl ArgumentTypeError
   \<and> parse_time_input utc_plus_8
       \<lparr> ordinal = 739000, hour = 17, minute = 59, second = 0, microsecond = 0,
         utcoffset = 28800 \<rparr> ''abc'' = Inl ArgumentTypeError
   \<and> parse_time_input utc_plus_8
       \<lparr> ordinal = 739000, hour = 17, minute = 59, second = 0, microsecond = 0,
         utcoffset = 28800 \<rparr> ''18'' = Inl ArgumentTypeError
   \<and> (\<exists>dt. parse_time_input utc_plus_8
           \<lparr> ordinal = 739000, hour = 17, minute = 59, second = 0, microsecond = 0,
             utcoffset = 28800 \<rparr> ''+18:00''
         = Inr dt \<and> hour dt = 18 \<and> minute dt = 0)"
  using rejects_what_int_or_the_ranges_reject
      [where s = "''25:61''" and zone = utc_plus_8
         and now = "\<lparr> ordinal = 739000, hour = 17, minute = 59, second = 0, microsecond = 0,
                      utcoffset = 28800 \<rparr>"]
    rejects_what_int_or_the_ranges_reject
      [where s = "''abc''" and zone = utc_plus_8
         and now = "\<lparr> ordinal = 739000, hour = 17, minute = 59, second = 0, microsecond = 0,
                      utcoffset = 28800 \<rparr>"]
    rejects_what_int_or_the_ranges_reject
      [where s = "''18''" and zone = utc_plus_8
         and now = "\<lparr> ordinal = 739000, hour = 17, minute = 59, second = 0, microsecond = 0,
                      utcoffset = 28800 \<rparr>"]
    rejects_what_int_or_the_ranges_reject
      [where s = "''+18:00''" and zone = utc_plus_8
         and now = "\<lparr> ordinal = 739000, hour = 17, minute = 59, second = 0, microsecond = 0,
                      utcoffset = 28800 \<rparr>"]
  by (simp add: fields_examples ascii_text_def fits_c_int_def valid_datetime_def MAXORDINAL_def)

text \<open>An integer that does not fit a C \<open>int\<close> leaves \<open>parse_time_input\<close> as an
  \<open>OverflowError\<close>, which the handler of \<open>ValueError\<close> does not catch.\<close>

lemma huge_hour_overflows:
  "parse_time_input zone now ''4294967296:00'' = Inl OverflowError"
  by (simp add: parse_time_input_def unpack_hour_minute_def py_int_def strip_def
      py_digits_def MAX_STR_DIGITS_def is_space_def is_digit_def digit_val_def new_datetime_def
      fits_c_int_def)

lemma strip_no_blank:
  assumes "\<forall>c \<in> set s. \<not> is_space c"
  shows "strip s = s"
proof -
  have "dropWhile is_space xs = xs" if "\<forall>c \<in> set xs. \<not> is_space c" for xs
    using that by (cases xs) simp_all
  from this [of s] this [of "rev s"] show ?thesis
    using assms by (simp add: strip_def)
qed

text \<open>A field of more digits than the interpreter converts is no integer for \<open>int\<close>:
  an hour of 4301 digits is rejected as a format error, before its size is looked at.\<close>

lemma long_field_is_rejected:
  "parse_time_input zone now (CHR ''1'' # replicate 4300 CHR ''0'' @ '':00'')
     = Inl ArgumentTypeError"
proof -
  let ?a = "CHR ''1'' # replicate 4300 CHR ''0''"
  have d: "is_digit CHR ''0''" "is_digit CHR ''1''" "\<not> is_space CHR ''0''"
    "\<not> is_space CHR ''1''"
    by (simp_all add: is_digit_def is_space_def)
  have "split_on CHR '':'' (?a @ CHR '':'' # ''00'') = [?a, ''00'']"
    by (intro split_on_two) simp_all
  moreover have "py_int ?a = None"
  proof -
    have "strip ?a = ?a"
      by (rule strip_no_blank) (use d in auto)
    moreover have "py_digits ?a = None"
      using d by (simp add: py_digits_def MAX_STR_DIGITS_def)
    ultimately show ?thesis
      by (simp add: py_int_def)
  qed
  ultimately have "fields (?a @ CHR '':'' # ''00'') = None"
    by (simp add: fields_def)
  then show ?thesis
    using parse_time_input_rejects [of "?a @ CHR '':'' # ''00''" zone now] by simp
qed

section \<open>The countdown\<close>

lemma advancing_mono: "advancing clock \<Longrightarrow> i < j \<Longrightarrow> clock i < clock j"
  unfolding advancing_def by (rule lift_Suc_mono_less) simp

lemma samples_ticks:
  "samples (ticks clock target k n @ [Newline]) = map (\<lambda>j. target - clock j) [k..<n]"
proof (induction "n - k" arbitrary: k)
  case 0
  then show ?case by (simp add: ticks_def)
next
  case (Suc d)
  then have "k < n" by simp
  then have "[k..<n] = k # [Suc k..<n]" by (simp add: upt_conv_Cons)
  moreover have "d = n - Suc k" using Suc by simp
  ultimately show ?case
    using Suc(1) [of "Suc k"] by (simp add: ticks_def)
qed

lemma ticks_step:
  "k < n \<Longrightarrow> ticks clock target k n
     = Remaining (target - clock k) # Sleep 1 # ticks clock target (Suc k) n"
  by (simp add: ticks_def upt_conv_Cons)

lemma countdown_terminates:
  assumes "advancing clock"
  shows "\<exists>n. k \<le> n \<and> countdown clock target k = Some (ticks clock target k n @ [Newline])
            \<and> (\<forall>j. k \<le> j \<and> j < n \<longrightarrow> 0 < target - clock j)
            \<and> target - clock n \<le> 0"
proof (induction "nat (target - clock k)" arbitrary: k rule: less_induct)
  case less
  show ?case
  proof (cases "target - clock k \<le> 0")
    case True
    then have "countdown clock target k = Some (ticks clock target k k @ [Newline])"
      by (subst countdown.simps) (simp add: ticks_def)
    with True show ?thesis by auto
  next
    case False
    have "clock k < clock (Suc k)" using assms by (simp add: advancing_def)
    with False have "nat (target - clock (Suc k)) < nat (target - clock k)" by simp
    from less [OF this] obtain n where n: "Suc k \<le> n"
        "countdown clock target (Suc k) = Some (ticks clock target (Suc k) n @ [Newline])"
        "\<forall>j. Suc k \<le> j \<and> j < n \<longrightarrow> 0 < target - clock j" "target - clock n \<le> 0"
      by blast
    have "countdown clock target k
        = Some (Remaining (target - clock k) # Sleep 1 # ticks clock target (Suc k) n @ [Newline])"
      using False n(2) by (subst countdown.simps) simp
    then have "countdown clock target k = Some (ticks clock target k n @ [Newline])"
      using n(1) by (simp add: ticks_step)
    moreover have "\<forall>j. k \<le> j \<and> j < n \<longrightarrow> 0 < target - clock j"
    proof (intro allI impI)
      fix j assume "k \<le> j \<and> j < n"
      then show "0 < target - clock j"
        using n(3) False by (cases "j = k") auto
    qed
    ultimately show ?thesis using n(1,4) by (intro exI [of _ n]) simp
  qed
qed

text \<open>
  C9. Under a clock that advances between readings, the countdown loop ends for every
  target instant. What it prints is a finite sequence of remaining-time samples, each
  followed by a sleep of one second, then a newline; the samples are positive and
  strictly decreasing, and the loop stops at the first reading at which the remaining
  time is at most zero.
\<close>

theorem countdown_is_finite_and_decreasing:
  assumes "advancing clock"
  shows "\<exists>n out. countdown clock target 0 = Some out
           \<and> out = ticks clock target 0 n @ [Newline]
           \<and> samples out = map (\<lambda>j. target - clock j) [0..<n]
           \<and> sorted_wrt (>) (samples out)
           \<and> (\<forall>r \<in> set (samples out). 0 < r)
           \<and> target - clock n \<le> 0"
proof -
  obtain n where n: "countdown clock target 0 = Some (ticks clock target 0 n @ [Newline])"
      "\<forall>j. 0 \<le> j \<and> j < n \<longrightarrow> 0 < target - clock j" "target - clock n \<le> 0"
    using countdown_terminates [OF assms, of 0 target] by blast
  let ?out = "ticks clock target 0 n @ [Newline]"
  have s: "samples ?out = map (\<lambda>j. target - clock j) [0..<n]"
    by (rule samples_ticks)
  have "sorted_wrt (>) (map (\<lambda>j. target - clock j) [0..<n])"
    using advancing_mono [OF assms]
    by (simp add: sorted_wrt_map sorted_wrt_iff_nth_less)
  moreover have "\<forall>r \<in> set (map (\<lambda>j. target - clock j) [0..<n]). 0 < r"
    using n(2) by auto
  ultimately show ?thesis
    using n(1,3) s by (intro exI [of _ n] exI [of _ ?out]) simp
qed

lemma countdown_two_seconds:
  "countdown second_clock 2000000 0
     = Some [Remaining 2000000, Sleep 1, Remaining 1000000, Sleep 1, Newline]"
proof -
  have "countdown second_clock 2000000 (Suc (Suc 0)) = Some [Newline]"
    by (subst countdown.simps) (simp add: second_clock_def)
  then have "countdown second_clock 2000000 (Suc 0) = Some [Remaining 1000000, Sleep 1, Newline]"
    by (subst countdown.simps) (simp add: second_clock_def)
  then show ?thesis
    by (subst countdown.simps) (simp add: second_clock_def)
qed

theorem countdown_is_finite_and_decreasing_witness:
  "advancing second_clock
   \<and> (\<exists>n out. countdown second_clock 2000000 0 = Some out
         \<and> out = [Remaining 2000000, Sleep 1, Remaining 1000000, Sleep 1, Newline]
         \<and> samples out = [2000000, 1000000]
         \<and> sorted_wrt (>) (samples out)
         \<and> 2000000 - second_clock n \<le> 0)"
proof -
  have a: "advancing second_clock"
    by (simp add: advancing_def second_clock_def)
  show ?thesis
    using a countdown_is_finite_and_decreasing [OF a, of 2000000] countdown_two_seconds
    by auto
qed

section \<open>The balance display\<close>

lemma balance_loop_entries:
  "entries to_float bs = Some es \<Longrightarrow>
     balance_loop to_float bs out
       = \<lparr> printed = out @ map (\<lambda>(a, x). BalanceLine a x) (filter (\<lambda>(a, x). 0 < x) es) @ [Rule],
           sent = [], returned = Inr () \<rparr>"
proof (induction bs arbitrary: out es)
  case Nil
  then show ?case by simp
next
  case (Cons b bs)
  from Cons.prems obtain a x es' where e: "entry to_float b = Some (a, x)"
      "entries to_float bs = Some es'" "es = (a, x) # es'"
    by (auto split: option.splits)
  from e(1) obtain v a0 where v: "subscript b ''free'' = Inr v" "subscript b ''asset'' = Inr a0"
      "py_float to_float v = Inr x" "format_asset a0 = Inr a"
    by (auto simp add: entry_def split: sum.splits)
  show ?case
    using v e(3) Cons.IH [OF e(2)] by simp
qed

text \<open>
  C10. For every account payload whose \<open>balances\<close> is a list of entries with an asset
  name and a free balance that \<open>float\<close> accepts, the balance display prints, between the
  title and the closing rule, one line for each entry whose free balance is strictly
  greater than zero, in the order of the payload, and nothing else: an entry with free
  balance 0 is omitted and every entry with a positive free balance appears.
\<close>

theorem prints_exactly_the_positive_balances:
  assumes "subscript account ''balances'' = Inr (JArr bs)"
    and "entries to_float bs = Some es"
  shows "printed (print_balance to_float account)
           = BalanceTitle # Rule # map (\<lambda>(a, x). BalanceLine a x) (filter (\<lambda>(a, x). 0 < x) es)
               @ [Rule]
       \<and> returned (print_balance to_float account) = Inr ()
       \<and> (\<forall>a x. BalanceLine a x \<in> set (printed (print_balance to_float account))
                 \<longleftrightarrow> (a, x) \<in> set es \<and> 0 < x)"
proof -
  have p: "print_balance to_float account
      = \<lparr> printed = [BalanceTitle, Rule]
            @ map (\<lambda>(a, x). BalanceLine a x) (filter (\<lambda>(a, x). 0 < x) es) @ [Rule],
          sent = [], returned = Inr () \<rparr>"
    using assms(1) balance_loop_entries [OF assms(2)]
    by (simp add: print_balance_def)
  then show ?thesis by auto
qed

theorem prints_exactly_the_positive_balances_witness:
  "printed (print_balance example_float
       (JObj [(''balances'', JArr
          [JObj [(''asset'', JStr ''BTC''), (''free'', JStr ''1.5'')],
           JObj [(''asset'', JStr ''ETH''), (''free'', JStr ''0.00000000'')]])]))
     = [BalanceTitle, Rule, BalanceLine (JStr ''BTC'') (3 / 2), Rule]"
  using prints_exactly_the_positive_balances
    [of "JObj [(''balances'', JArr
          [JObj [(''asset'', JStr ''BTC''), (''free'', JStr ''1.5'')],
           JObj [(''asset'', JStr ''ETH''), (''free'', JStr ''0.00000000'')]])]"
        "[JObj [(''asset'', JStr ''BTC''), (''free'', JStr ''1.5'')],
          JObj [(''asset'', JStr ''ETH''), (''free'', JStr ''0.00000000'')]]"
        example_float "[(JStr ''BTC'', 3 / 2), (JStr ''ETH'', 0)]"]
  by (simp add: entry_def example_float_def)

end
